theory Spec2Isabelle
  imports Complex_Main
begin

section \<open>Python values and built-ins used by the bridge\<close>

text \<open>
  The bridge (\<^verbatim>\<open>src/linux/ScreenControlTray/screencontrol_tray.py\<close>) receives its
  arguments from decoded JSON bodies, so an argument can be any JSON value. Floats are
  kept as the rational they denote, or one of the three non-finite values that
  \<^verbatim>\<open>json.loads\<close> accepts. A JSON object is the list of its items.
\<close>

datatype pyfloat = Finite rat | PosInf | NegInf | NaN

datatype json =
    JNull
  | JBool bool
  | JInt int
  | JFloat pyfloat
  | JStr string
  | JArr "json list"
  | JObj "(string \<times> json) list"

text \<open>Every exception the modelled code can meet is a value.\<close>

datatype pyerror =
    CalledProcessError int
  | SpawnError
  | TypeError
  | ValueError
  | OverflowError
  | IndexError
  | AttributeError
  | JSONDecodeError
  | FileNotFoundError
  | UnidentifiedImageError
  | CannotWriteMode string string

subsection \<open>Strings\<close>

text \<open>\<^verbatim>\<open>str.isspace\<close> on the ASCII range.\<close>

definition py_isspace :: "char \<Rightarrow> bool" where
  "py_isspace c =
     (c \<in> set [CHR 0x09, CHR 0x0A, CHR 0x0B, CHR 0x0C, CHR 0x0D,
               CHR 0x1C, CHR 0x1D, CHR 0x1E, CHR 0x1F, CHR 0x20])"

definition py_strip :: "string \<Rightarrow> string" where
  "py_strip s = rev (dropWhile py_isspace (rev (dropWhile py_isspace s)))"

definition lower_char :: "char \<Rightarrow> char" where
  "lower_char c =
     (case map_of (zip ''ABCDEFGHIJKLMNOPQRSTUVWXYZ'' ''abcdefghijklmnopqrstuvwxyz'') c of
        Some l \<Rightarrow> l
      | None \<Rightarrow> c)"

definition py_lower :: "string \<Rightarrow> string" where
  "py_lower s = map lower_char s"

text \<open>\<^verbatim>\<open>s.split()\<close>: the maximal runs of non-whitespace characters.\<close>

fun split_ws_acc :: "string \<Rightarrow> string \<Rightarrow> string list" where
  "split_ws_acc cur [] = (if cur = [] then [] else [cur])"
| "split_ws_acc cur (c # cs) =
     (if py_isspace c
      then (if cur = [] then split_ws_acc [] cs else cur # split_ws_acc [] cs)
      else split_ws_acc (cur @ [c]) cs)"

definition py_split :: "string \<Rightarrow> string list" where
  "py_split s = split_ws_acc [] s"

text \<open>\<^verbatim>\<open>s.split(sep)\<close> for a one-character separator: empty pieces are kept.\<close>

fun split_on_acc :: "char \<Rightarrow> string \<Rightarrow> string \<Rightarrow> string list" where
  "split_on_acc sep cur [] = [cur]"
| "split_on_acc sep cur (c # cs) =
     (if c = sep then cur # split_on_acc sep [] cs else split_on_acc sep (cur @ [c]) cs)"

definition py_split_on :: "char \<Rightarrow> string \<Rightarrow> string list" where
  "py_split_on sep s = split_on_acc sep [] s"

text \<open>
  \<^verbatim>\<open>s.split(None, n)\<close>: at most \<open>n\<close> splits at whitespace runs; what is left
  after the last split loses its leading whitespace only.
\<close>

fun py_split_max :: "nat \<Rightarrow> string \<Rightarrow> string list" where
  "py_split_max 0 s =
     (let r = dropWhile py_isspace s in if r = [] then [] else [r])"
| "py_split_max (Suc n) s =
     (let r = dropWhile py_isspace s in
      if r = [] then []
      else takeWhile (\<lambda>c. \<not> py_isspace c) r
             # py_split_max n (dropWhile (\<lambda>c. \<not> py_isspace c) r))"

text \<open>Python indexing \<^verbatim>\<open>xs[i]\<close> for \<open>i \<ge> 0\<close>: out of range raises.\<close>

definition py_index :: "'a list \<Rightarrow> nat \<Rightarrow> pyerror + 'a" where
  "py_index xs i = (if i < length xs then Inr (xs ! i) else Inl IndexError)"

subsection \<open>Integers and their decimal text\<close>

fun str_nat :: "nat \<Rightarrow> string" where
  "str_nat n =
     (if n < 10 then [''0123456789'' ! n]
      else str_nat (n div 10) @ [''0123456789'' ! (n mod 10)])"

declare str_nat.simps [simp del]

text \<open>\<^verbatim>\<open>str(i)\<close> for an integer.\<close>

definition str_int :: "int \<Rightarrow> string" where
  "str_int i = (if i < 0 then CHR ''-'' # str_nat (nat (- i)) else str_nat (nat i))"

definition digit_of :: "char \<Rightarrow> nat option" where
  "digit_of c =
     map_of [(CHR ''0'', 0), (CHR ''1'', 1), (CHR ''2'', 2), (CHR ''3'', 3), (CHR ''4'', 4),
             (CHR ''5'', 5), (CHR ''6'', 6), (CHR ''7'', 7), (CHR ''8'', 8), (CHR ''9'', 9)] c"

text \<open>
  The digits of an integer literal after the first one: a single underscore may stand
  between two digits.
\<close>

fun more_digits :: "nat \<Rightarrow> string \<Rightarrow> nat option" where
  "more_digits acc [] = Some acc"
| "more_digits acc [c] =
     (case digit_of c of None \<Rightarrow> None | Some d \<Rightarrow> Some (10 * acc + d))"
| "more_digits acc (c # c' # cs) =
     (if c = CHR ''_''
      then (case digit_of c' of
              None \<Rightarrow> None
            | Some d \<Rightarrow> more_digits (10 * acc + d) cs)
      else (case digit_of c of
              None \<Rightarrow> None
            | Some d \<Rightarrow> more_digits (10 * acc + d) (c' # cs)))"

definition int_literal :: "string \<Rightarrow> nat option" where
  "int_literal s =
     (case s of
        [] \<Rightarrow> None
      | c # cs \<Rightarrow> (case digit_of c of None \<Rightarrow> None | Some d \<Rightarrow> more_digits d cs))"

text \<open>
  \<^verbatim>\<open>int(s)\<close> for a string of ASCII characters: surrounding whitespace, an optional
  sign, decimal digits.
\<close>

definition int_of_str :: "string \<Rightarrow> pyerror + int" where
  "int_of_str s =
     (let t = py_strip s;
          r = (case t of
                 [] \<Rightarrow> None
               | c # cs \<Rightarrow>
                   if c = CHR ''-'' then map_option (\<lambda>n. - int n) (int_literal cs)
                   else if c = CHR ''+'' then map_option int (int_literal cs)
                   else map_option int (int_literal t))
      in case r of None \<Rightarrow> Inl ValueError | Some i \<Rightarrow> Inr i)"

text \<open>\<^verbatim>\<open>int(x)\<close> for a float truncates towards zero.\<close>

definition trunc_rat :: "rat \<Rightarrow> int" where
  "trunc_rat r = (if 0 \<le> r then \<lfloor>r\<rfloor> else \<lceil>r\<rceil>)"

text \<open>\<^verbatim>\<open>int(x)\<close> for a decoded JSON value.\<close>

fun py_int :: "json \<Rightarrow> pyerror + int" where
  "py_int (JInt i) = Inr i"
| "py_int (JBool b) = Inr (if b then 1 else 0)"
| "py_int (JFloat (Finite r)) = Inr (trunc_rat r)"
| "py_int (JFloat NaN) = Inl ValueError"
| "py_int (JFloat PosInf) = Inl OverflowError"
| "py_int (JFloat NegInf) = Inl OverflowError"
| "py_int (JStr s) = int_of_str s"
| "py_int JNull = Inl TypeError"
| "py_int (JArr xs) = Inl TypeError"
| "py_int (JObj kvs) = Inl TypeError"

text \<open>\<^verbatim>\<open>d.get(k, default)\<close> on a decoded JSON object.\<close>

definition dict_get :: "(string \<times> json) list \<Rightarrow> string \<Rightarrow> json \<Rightarrow> json" where
  "dict_get kvs k dflt = (case map_of kvs k of Some v \<Rightarrow> v | None \<Rightarrow> dflt)"

section \<open>The machine the bridge runs on\<close>

subsection \<open>Images and the imaging library\<close>

text \<open>
  A decoded image as the imaging library (Pillow) holds it: its mode string, its size and,
  for every pixel, the values of its bands. An encoder's output is kept symbolically:
  \<open>JPEG_of img q\<close> is what \<^verbatim>\<open>img.save(output, format='JPEG', quality=q)\<close> writes,
  \<open>PNG_of img\<close> what \<^verbatim>\<open>img.save(output, format='PNG')\<close> writes.
\<close>

record image =
  img_mode :: string
  img_size :: "nat \<times> nat"
  img_pixels :: "nat list list"

datatype encoded = JPEG_of image int | PNG_of image

text \<open>The modes the library's JPEG and PNG writers accept; any other mode raises.\<close>

definition jpeg_modes :: "string list" where
  "jpeg_modes = [''1'', ''L'', ''RGB'', ''RGBX'', ''CMYK'', ''YCbCr'']"

definition png_modes :: "string list" where
  "png_modes = [''1'', ''L'', ''LA'', ''I'', ''I;16'', ''P'', ''RGB'', ''RGBA'']"

definition save_jpeg :: "image \<Rightarrow> int \<Rightarrow> pyerror + encoded" where
  "save_jpeg img q =
     (if img_mode img \<in> set jpeg_modes then Inr (JPEG_of img q)
      else Inl (CannotWriteMode (img_mode img) ''JPEG''))"

definition save_png :: "image \<Rightarrow> pyerror + encoded" where
  "save_png img =
     (if img_mode img \<in> set png_modes then Inr (PNG_of img)
      else Inl (CannotWriteMode (img_mode img) ''PNG''))"

text \<open>
  \<^verbatim>\<open>img.convert('RGB')\<close> as the code calls it, on an image of mode RGBA: the fourth
  band of every pixel is dropped.
\<close>

definition convert_RGB :: "image \<Rightarrow> image" where
  "convert_RGB img = img\<lparr>img_mode := ''RGB'', img_pixels := map (take 3) (img_pixels img)\<rparr>"

text \<open>The modes of the library that carry an alpha band.\<close>

definition alpha_modes :: "string list" where
  "alpha_modes = [''RGBA'', ''LA'', ''PA'', ''RGBa'', ''La'']"

definition has_alpha :: "image \<Rightarrow> bool" where
  "has_alpha img = (img_mode img \<in> set alpha_modes)"

definition bands :: "encoded \<Rightarrow> string" where
  "bands e = (case e of JPEG_of img q \<Rightarrow> img_mode img | PNG_of img \<Rightarrow> img_mode img)"

subsection \<open>Files, processes and the world\<close>

text \<open>
  A file holds either something the imaging library decodes to an image, or anything
  else (an empty file included).
\<close>

datatype filedata = NotAnImage | ImageData image

type_synonym argv = "string list"

text \<open>
  What starting a program gives: it could not be started at all, or it ran and exited
  with a return code, its standard output and the files it wrote.
\<close>

datatype proc_outcome =
    NotStarted
  | Exited int string "(string \<times> filedata) list"

text \<open>
  The world outside the program: the environment variables, the files, the command
  lines handed to \<^verbatim>\<open>subprocess.run\<close> so far (oldest first, also those whose program
  could not be started), the number of temporary files made, and how the installed
  programs behave given the command lines handed over before.
\<close>

record world =
  environ :: "string \<Rightarrow> string option"
  files :: "string \<Rightarrow> filedata option"
  issued :: "argv list"
  tmp_count :: nat
  programs :: "argv list \<Rightarrow> argv \<Rightarrow> proc_outcome"

definition apply_writes :: "(string \<times> filedata) list \<Rightarrow> (string \<Rightarrow> filedata option)
    \<Rightarrow> (string \<Rightarrow> filedata option)" where
  "apply_writes ws fs = foldl (\<lambda>f (p, d). f(p \<mapsto> d)) fs ws"

text \<open>\<^verbatim>\<open>subprocess.run(argv, capture_output=True)\<close>: the return code is not checked.\<close>

definition subprocess_run :: "world \<Rightarrow> argv \<Rightarrow> (pyerror + int \<times> string) \<times> world" where
  "subprocess_run w a =
     (case programs w (issued w) a of
        NotStarted \<Rightarrow> (Inl SpawnError, w\<lparr>issued := issued w @ [a]\<rparr>)
      | Exited rc out ws \<Rightarrow>
          (Inr (rc, out),
           w\<lparr>issued := issued w @ [a], files := apply_writes ws (files w)\<rparr>))"

text \<open>\<^verbatim>\<open>subprocess.run(argv, check=True)\<close>: a non-zero return code raises.\<close>

definition run_checked :: "world \<Rightarrow> argv \<Rightarrow> (pyerror + string) \<times> world" where
  "run_checked w a =
     (case subprocess_run w a of
        (Inl e, w') \<Rightarrow> (Inl e, w')
      | (Inr (rc, out), w') \<Rightarrow>
          (if rc \<noteq> 0 then (Inl (CalledProcessError rc), w') else (Inr out, w')))"

text \<open>A command line whose arguments are still to be computed: computing them may raise.\<close>

definition exec_checked :: "world \<Rightarrow> pyerror + argv \<Rightarrow> (pyerror + string) \<times> world" where
  "exec_checked w a = (case a of Inl e \<Rightarrow> (Inl e, w) | Inr av \<Rightarrow> run_checked w av)"

text \<open>The next statement of a \<^verbatim>\<open>try\<close> block runs only if the one before did not raise.\<close>

definition and_then :: "(pyerror + 'a) \<times> world \<Rightarrow> (world \<Rightarrow> (pyerror + 'b) \<times> world)
    \<Rightarrow> (pyerror + 'b) \<times> world" where
  "and_then r f = (case r of (Inl e, w) \<Rightarrow> (Inl e, w) | (Inr v, w) \<Rightarrow> f w)"

text \<open>
  \<^verbatim>\<open>try: ...; return True\<close> \<^verbatim>\<open>except Exception: return False\<close>, the shape of every
  input operation.
\<close>

definition returns_bool :: "(pyerror + 'a) \<times> world \<Rightarrow> bool \<times> world" where
  "returns_bool r = (case r of (Inl e, w) \<Rightarrow> (False, w) | (Inr v, w) \<Rightarrow> (True, w))"

text \<open>
  \<^verbatim>\<open>tempfile.NamedTemporaryFile(suffix='.png', delete=False)\<close>: an empty file is made
  and stays after the \<^verbatim>\<open>with\<close> block.
\<close>

definition named_temporary_file :: "world \<Rightarrow> string \<times> world" where
  "named_temporary_file w =
     (let p = ''/tmp/tmp'' @ str_nat (tmp_count w) @ ''.png''
      in (p, w\<lparr>files := (files w)(p \<mapsto> NotAnImage), tmp_count := Suc (tmp_count w)\<rparr>))"

text \<open>\<^verbatim>\<open>Image.open(path)\<close> and the decoding that saving forces.\<close>

definition image_open :: "world \<Rightarrow> string \<Rightarrow> pyerror + image" where
  "image_open w p =
     (case files w p of
        None \<Rightarrow> Inl FileNotFoundError
      | Some NotAnImage \<Rightarrow> Inl UnidentifiedImageError
      | Some (ImageData img) \<Rightarrow> Inr img)"

definition os_unlink :: "world \<Rightarrow> string \<Rightarrow> (pyerror + unit) \<times> world" where
  "os_unlink w p =
     (case files w p of
        None \<Rightarrow> (Inl FileNotFoundError, w)
      | Some d \<Rightarrow> (Inr (), w\<lparr>files := (files w)(p := None)\<rparr>))"

text \<open>
  An argument of a command line must be a string without a NUL character, or
  \<^verbatim>\<open>subprocess.run\<close> raises before it starts anything.
\<close>

definition str_arg :: "json \<Rightarrow> pyerror + string" where
  "str_arg v =
     (case v of
        JStr s \<Rightarrow> (if CHR 0x00 \<in> set s then Inl ValueError else Inr s)
      | _ \<Rightarrow> Inl TypeError)"

section \<open>ScreenController\<close>

subsection \<open>take\_screenshot\<close>

text \<open>
  Lines 100 to 109: the capture backend is chosen by \<^verbatim>\<open>XDG_SESSION_TYPE\<close>. On wayland
  \<^verbatim>\<open>grim\<close> runs unchecked and \<^verbatim>\<open>gnome-screenshot\<close> runs, unchecked too, if grim's
  return code is not 0; otherwise \<^verbatim>\<open>scrot\<close> runs with \<^verbatim>\<open>check=True\<close>.
\<close>

definition capture_to :: "world \<Rightarrow> string \<Rightarrow> (pyerror + unit) \<times> world" where
  "capture_to w tmp_path =
     (if environ w ''XDG_SESSION_TYPE'' = Some ''wayland'' then
        (case subprocess_run w [''grim'', tmp_path] of
           (Inl e, w1) \<Rightarrow> (Inl e, w1)
         | (Inr (rc, out), w1) \<Rightarrow>
             (if rc \<noteq> 0 then
                (case subprocess_run w1 [''gnome-screenshot'', ''-f'', tmp_path] of
                   (Inl e, w2) \<Rightarrow> (Inl e, w2)
                 | (Inr r, w2) \<Rightarrow> (Inr (), w2))
              else (Inr (), w1)))
      else
        (case run_checked w [''scrot'', ''-o'', tmp_path] of
           (Inl e, w1) \<Rightarrow> (Inl e, w1)
         | (Inr out, w1) \<Rightarrow> (Inr (), w1)))"

text \<open>Lines 116 to 122: the decoded image is written in the requested format.\<close>

definition reencode :: "image \<Rightarrow> string \<Rightarrow> int \<Rightarrow> pyerror + encoded" where
  "reencode img format quality =
     (if py_lower format = ''jpeg'' then
        save_jpeg (if img_mode img = ''RGBA'' then convert_RGB img else img) quality
      else save_png img)"

text \<open>
  The whole operation. An exception anywhere is logged and raised again, so it leaves
  the function at the statement that raised it; \<^verbatim>\<open>os.unlink\<close> is the last statement
  before \<^verbatim>\<open>return\<close>.
\<close>

definition take_screenshot :: "world \<Rightarrow> string \<Rightarrow> int \<Rightarrow> (pyerror + encoded) \<times> world" where
  "take_screenshot w format quality =
     (case named_temporary_file w of
        (tmp_path, w1) \<Rightarrow>
          (case capture_to w1 tmp_path of
             (Inl e, w2) \<Rightarrow> (Inl e, w2)
           | (Inr u, w2) \<Rightarrow>
               (case image_open w2 tmp_path of
                  Inl e \<Rightarrow> (Inl e, w2)
                | Inr img \<Rightarrow>
                    (case reencode img format quality of
                       Inl e \<Rightarrow> (Inl e, w2)
                     | Inr data \<Rightarrow>
                         (case os_unlink w2 tmp_path of
                            (Inl e, w3) \<Rightarrow> (Inl e, w3)
                          | (Inr u', w3) \<Rightarrow> (Inr data, w3))))))"

text \<open>The path of the temporary file a call of \<open>take_screenshot\<close> in \<open>w\<close> makes.\<close>

definition tmp_path_of :: "world \<Rightarrow> string" where
  "tmp_path_of w = fst (named_temporary_file w)"

subsection \<open>Pointer and keyboard operations\<close>

text \<open>
  The library routines the model does not spell out: \<^verbatim>\<open>json.loads\<close> on a request
  body, and \<^verbatim>\<open>str\<close> of a float, a list or a dict.
\<close>

record pylib =
  json_loads :: "string \<Rightarrow> json option"
  repr_of :: "json \<Rightarrow> string"

text \<open>\<^verbatim>\<open>str(v)\<close> for a decoded JSON value.\<close>

definition py_str :: "pylib \<Rightarrow> json \<Rightarrow> string" where
  "py_str L v =
     (case v of
        JStr s \<Rightarrow> s
      | JInt i \<Rightarrow> str_int i
      | JBool b \<Rightarrow> (if b then ''True'' else ''False'')
      | JNull \<Rightarrow> ''None''
      | _ \<Rightarrow> repr_of L v)"

text \<open>The pointer warp \<^verbatim>\<open>['xdotool', 'mousemove', str(int(x)), str(int(y))]\<close>.\<close>

definition warp :: "int \<Rightarrow> int \<Rightarrow> argv" where
  "warp x y = [''xdotool'', ''mousemove'', str_int x, str_int y]"

definition mousemove_argv :: "json \<Rightarrow> json \<Rightarrow> pyerror + argv" where
  "mousemove_argv x y =
     (case py_int x of
        Inl e \<Rightarrow> Inl e
      | Inr xi \<Rightarrow> (case py_int y of Inl e \<Rightarrow> Inl e | Inr yi \<Rightarrow> Inr (warp xi yi)))"

definition move_mouse :: "world \<Rightarrow> json \<Rightarrow> json \<Rightarrow> bool \<times> world" where
  "move_mouse w x y = returns_bool (exec_checked w (mousemove_argv x y))"

text \<open>
  \<^verbatim>\<open>{'left': '1', 'right': '3', 'middle': '2'}.get(button, '1')\<close>: a list or a dict
  cannot be hashed, every other value that is not a key gives the default.
\<close>

definition button_index :: "json \<Rightarrow> pyerror + string" where
  "button_index button =
     (case button of
        JStr s \<Rightarrow>
          Inr (case map_of [(''left'', ''1''), (''right'', ''3''), (''middle'', ''2'')] s of
                 Some b \<Rightarrow> b
               | None \<Rightarrow> ''1'')
      | JArr xs \<Rightarrow> Inl TypeError
      | JObj kvs \<Rightarrow> Inl TypeError
      | _ \<Rightarrow> Inr ''1'')"

definition click :: "world \<Rightarrow> json \<Rightarrow> json \<Rightarrow> json \<Rightarrow> bool \<times> world" where
  "click w x y button =
     returns_bool
       (case button_index button of
          Inl e \<Rightarrow> (Inl e, w)
        | Inr btn \<Rightarrow>
            and_then (exec_checked w (mousemove_argv x y))
              (\<lambda>w1. run_checked w1 [''xdotool'', ''click'', btn]))"

definition double_click :: "world \<Rightarrow> json \<Rightarrow> json \<Rightarrow> bool \<times> world" where
  "double_click w x y =
     returns_bool
       (and_then (exec_checked w (mousemove_argv x y))
          (\<lambda>w1. run_checked w1 [''xdotool'', ''click'', ''--repeat'', ''2'', ''1'']))"

definition scroll :: "pylib \<Rightarrow> world \<Rightarrow> json \<Rightarrow> json \<Rightarrow> bool \<times> world" where
  "scroll L w direction amount =
     returns_bool
       (let btn = (if direction = JStr ''down'' then ''5'' else ''4'');
            n = py_str L amount
        in if CHR 0x00 \<in> set n then (Inl ValueError, w)
           else run_checked w [''xdotool'', ''click'', ''--repeat'', n, btn])"

definition drag :: "world \<Rightarrow> json \<Rightarrow> json \<Rightarrow> json \<Rightarrow> json \<Rightarrow> bool \<times> world" where
  "drag w start_x start_y end_x end_y =
     returns_bool
       (and_then (exec_checked w (mousemove_argv start_x start_y))
          (\<lambda>w1. and_then (run_checked w1 [''xdotool'', ''mousedown'', ''1''])
             (\<lambda>w2. and_then (exec_checked w2 (mousemove_argv end_x end_y))
                (\<lambda>w3. run_checked w3 [''xdotool'', ''mouseup'', ''1'']))))"

text \<open>
  Lines 187 to 192: the text \<^verbatim>\<open>x:123 y:456 screen:0 window:12345\<close> is taken apart;
  a missing piece or a piece that is no integer raises.
\<close>

definition parse_location :: "string \<Rightarrow> pyerror + int \<times> int" where
  "parse_location out =
     (let parts = py_split (py_strip out) in
      case py_index parts 0 of
        Inl e \<Rightarrow> Inl e
      | Inr p0 \<Rightarrow>
          (case py_index (py_split_on CHR '':'' p0) 1 of
             Inl e \<Rightarrow> Inl e
           | Inr xs \<Rightarrow>
               (case int_of_str xs of
                  Inl e \<Rightarrow> Inl e
                | Inr x \<Rightarrow>
                    (case py_index parts 1 of
                       Inl e \<Rightarrow> Inl e
                     | Inr p1 \<Rightarrow>
                         (case py_index (py_split_on CHR '':'' p1) 1 of
                            Inl e \<Rightarrow> Inl e
                          | Inr ys \<Rightarrow>
                              (case int_of_str ys of
                                 Inl e \<Rightarrow> Inl e
                               | Inr y \<Rightarrow> Inr (x, y)))))))"

text \<open>The \<^verbatim>\<open>try\<close> block of \<open>get_mouse_position\<close>.\<close>

definition query_location :: "world \<Rightarrow> (pyerror + int \<times> int) \<times> world" where
  "query_location w =
     (case run_checked w [''xdotool'', ''getmouselocation''] of
        (Inl e, w1) \<Rightarrow> (Inl e, w1)
      | (Inr out, w1) \<Rightarrow> (parse_location out, w1))"

text \<open>The dict \<^verbatim>\<open>{'x': x, 'y': y}\<close> is the pair \<open>(x, y)\<close>.\<close>

definition get_mouse_position :: "world \<Rightarrow> (int \<times> int) \<times> world" where
  "get_mouse_position w =
     (case query_location w of
        (Inl e, w1) \<Rightarrow> ((0, 0), w1)
      | (Inr pos, w1) \<Rightarrow> (pos, w1))"

definition type_text :: "world \<Rightarrow> json \<Rightarrow> bool \<times> world" where
  "type_text w text =
     returns_bool
       (case str_arg text of
          Inl e \<Rightarrow> (Inl e, w)
        | Inr t \<Rightarrow> run_checked w [''xdotool'', ''type'', ''--clearmodifiers'', t])"

definition key_map :: "(string \<times> string) list" where
  "key_map =
     [(''enter'', ''Return''), (''return'', ''Return''), (''tab'', ''Tab''),
      (''escape'', ''Escape''), (''esc'', ''Escape''), (''backspace'', ''BackSpace''),
      (''delete'', ''Delete''), (''space'', ''space''), (''up'', ''Up''), (''down'', ''Down''),
      (''left'', ''Left''), (''right'', ''Right''), (''home'', ''Home''), (''end'', ''End''),
      (''pageup'', ''Page_Up''), (''pagedown'', ''Page_Down'')]"

text \<open>\<^verbatim>\<open>key.lower()\<close> exists for strings only.\<close>

definition press_key :: "world \<Rightarrow> json \<Rightarrow> bool \<times> world" where
  "press_key w key =
     returns_bool
       (case key of
          JStr k \<Rightarrow>
            (let xdo_key = (case map_of key_map (py_lower k) of Some m \<Rightarrow> m | None \<Rightarrow> k)
             in if CHR 0x00 \<in> set xdo_key then (Inl ValueError, w)
                else run_checked w [''xdotool'', ''key'', xdo_key])
        | _ \<Rightarrow> (Inl AttributeError, w))"

subsection \<open>Windows\<close>

text \<open>Lines 243 to 253: one line of \<^verbatim>\<open>wmctrl -l -p\<close>, kept if it has five fields.\<close>

definition window_of_line :: "string \<Rightarrow> json list" where
  "window_of_line line =
     (if line = [] then []
      else (case py_split_max 4 line of
              [a, b, c, d, t] \<Rightarrow>
                [JObj [(''id'', JStr a), (''desktop'', JStr b), (''pid'', JStr c),
                       (''machine'', JStr d), (''title'', JStr t)]]
            | _ \<Rightarrow> []))"

definition get_windows :: "world \<Rightarrow> json list \<times> world" where
  "get_windows w =
     (case run_checked w [''wmctrl'', ''-l'', ''-p''] of
        (Inl e, w1) \<Rightarrow> ([], w1)
      | (Inr out, w1) \<Rightarrow>
          (concat (map window_of_line (py_split_on CHR 0x0A (py_strip out))), w1))"

definition focus_window :: "world \<Rightarrow> json \<Rightarrow> bool \<times> world" where
  "focus_window w window_id =
     returns_bool
       (case str_arg window_id of
          Inl e \<Rightarrow> (Inl e, w)
        | Inr i \<Rightarrow> run_checked w [''wmctrl'', ''-i'', ''-a'', i])"

section \<open>GUIBridgeHandler\<close>

text \<open>
  A request as the handler sees it: the path and the query of \<^verbatim>\<open>urlparse\<close> and
  \<^verbatim>\<open>parse_qs\<close> (every parameter with the list of its values), the Content-Length
  header if there is one, and the bytes of the body.
\<close>

record request =
  req_path :: string
  req_query :: "(string \<times> string list) list"
  content_length :: "string option"
  req_body :: string

text \<open>
  A response body: JSON text, image bytes, the envelope
  \<^verbatim>\<open>{'success': True, 'format': fmt, 'data': base64 of the bytes}\<close>, or
  \<^verbatim>\<open>{'error': str(e)}\<close> for an exception.
\<close>

datatype resp_body =
    JsonBody json
  | ImageBody encoded
  | Base64Body string encoded
  | ErrorBody pyerror

record response =
  status :: nat
  content_type :: string
  allow_origin :: string
  body :: resp_body

definition send_json :: "resp_body \<Rightarrow> nat \<Rightarrow> response" where
  "send_json data st =
     \<lparr>status = st, content_type = ''application/json'', allow_origin = ''*'', body = data\<rparr>"

definition send_image :: "encoded \<Rightarrow> string \<Rightarrow> response" where
  "send_image data ct =
     \<lparr>status = 200, content_type = ct, allow_origin = ''*'', body = ImageBody data\<rparr>"

text \<open>The \<^verbatim>\<open>except Exception\<close> clause of both handlers.\<close>

definition error_response :: "pyerror \<Rightarrow> response" where
  "error_response e = send_json (ErrorBody e) 500"

definition not_found :: response where
  "not_found = send_json (JsonBody (JObj [(''error'', JStr ''Not found'')])) 404"

definition success_response :: "bool \<Rightarrow> response" where
  "success_response ok = send_json (JsonBody (JObj [(''success'', JBool ok)])) 200"

text \<open>\<^verbatim>\<open>self.rfile.read(n)\<close>: a negative count reads all there is.\<close>

definition rfile_read :: "int \<Rightarrow> string \<Rightarrow> string" where
  "rfile_read n b = (if n < 0 then b else take (nat n) b)"

definition read_json :: "pylib \<Rightarrow> request \<Rightarrow> pyerror + json" where
  "read_json L r =
     (case (case content_length r of None \<Rightarrow> Inr 0 | Some h \<Rightarrow> int_of_str h) of
        Inl e \<Rightarrow> Inl e
      | Inr n \<Rightarrow>
          (if n \<noteq> 0 then
             (case json_loads L (rfile_read n (req_body r)) of
                None \<Rightarrow> Inl JSONDecodeError
              | Some v \<Rightarrow> Inr v)
           else Inr (JObj [])))"

text \<open>
  \<^verbatim>\<open>data.get(...)\<close> needs a dict; the operation's boolean becomes the
  \<^verbatim>\<open>success\<close> field of a 200 response.
\<close>

definition with_dict :: "json \<Rightarrow> world \<Rightarrow> ((string \<times> json) list \<Rightarrow> bool \<times> world)
    \<Rightarrow> response \<times> world" where
  "with_dict data w f =
     (case data of
        JObj kvs \<Rightarrow> (case f kvs of (ok, w1) \<Rightarrow> (success_response ok, w1))
      | _ \<Rightarrow> (error_response AttributeError, w))"

text \<open>Lines 353 to 403: the routes of a POST request, on the decoded body.\<close>

definition route_POST :: "pylib \<Rightarrow> world \<Rightarrow> string \<Rightarrow> json \<Rightarrow> response \<times> world" where
  "route_POST L w path data =
     (if path = ''/click'' then
        with_dict data w (\<lambda>d. click w (dict_get d ''x'' (JInt 0)) (dict_get d ''y'' (JInt 0))
                                (dict_get d ''button'' (JStr ''left'')))
      else if path = ''/double_click'' then
        with_dict data w
          (\<lambda>d. double_click w (dict_get d ''x'' (JInt 0)) (dict_get d ''y'' (JInt 0)))
      else if path = ''/mouse/move'' then
        with_dict data w
          (\<lambda>d. move_mouse w (dict_get d ''x'' (JInt 0)) (dict_get d ''y'' (JInt 0)))
      else if path = ''/mouse/scroll'' then
        with_dict data w (\<lambda>d. scroll L w (dict_get d ''direction'' (JStr ''down''))
                                 (dict_get d ''amount'' (JInt 3)))
      else if path = ''/mouse/drag'' then
        with_dict data w
          (\<lambda>d. drag w (dict_get d ''startX'' (JInt 0)) (dict_get d ''startY'' (JInt 0))
                  (dict_get d ''endX'' (JInt 0)) (dict_get d ''endY'' (JInt 0)))
      else if path = ''/keyboard/type'' then
        with_dict data w (\<lambda>d. type_text w (dict_get d ''text'' (JStr [])))
      else if path = ''/keyboard/key'' then
        with_dict data w (\<lambda>d. press_key w (dict_get d ''key'' (JStr [])))
      else if path = ''/ui/focus'' then
        with_dict data w (\<lambda>d. focus_window w (dict_get d ''windowId'' (JStr [])))
      else (not_found, w))"

definition do_POST :: "pylib \<Rightarrow> world \<Rightarrow> request \<Rightarrow> response \<times> world" where
  "do_POST L w r =
     (case read_json L r of
        Inl e \<Rightarrow> (error_response e, w)
      | Inr data \<Rightarrow> route_POST L w (req_path r) data)"

text \<open>\<^verbatim>\<open>params.get(k, [default])[0]\<close> on the parsed query.\<close>

definition query_first :: "(string \<times> string list) list \<Rightarrow> string \<Rightarrow> string \<Rightarrow> pyerror + string"
  where
  "query_first q k dflt =
     (case map_of q k of None \<Rightarrow> Inr dflt | Some vs \<Rightarrow> py_index vs 0)"

text \<open>The three parameters of \<^verbatim>\<open>/screenshot\<close>, read in the order of lines 314 to 316.\<close>

definition screenshot_params :: "(string \<times> string list) list \<Rightarrow> pyerror + string \<times> int \<times> bool"
  where
  "screenshot_params q =
     (case query_first q ''format'' ''jpeg'' of
        Inl e \<Rightarrow> Inl e
      | Inr fmt \<Rightarrow>
          (case (case map_of q ''quality'' of
                   None \<Rightarrow> Inr 80
                 | Some vs \<Rightarrow> (case py_index vs 0 of Inl e \<Rightarrow> Inl e | Inr v \<Rightarrow> int_of_str v)) of
             Inl e \<Rightarrow> Inl e
           | Inr quality \<Rightarrow>
               (case query_first q ''return_base64'' ''false'' of
                  Inl e \<Rightarrow> Inl e
                | Inr b \<Rightarrow> Inr (fmt, quality, py_lower b = ''true''))))"

definition position_response :: "int \<times> int \<Rightarrow> response" where
  "position_response pos =
     send_json (JsonBody (JObj [(''success'', JBool True), (''x'', JInt (fst pos)),
                                (''y'', JInt (snd pos))])) 200"

definition do_GET :: "world \<Rightarrow> request \<Rightarrow> response \<times> world" where
  "do_GET w r =
     (if req_path r = ''/health'' then
        (send_json (JsonBody (JObj [(''status'', JStr ''ok''),
                                    (''service'', JStr ''screencontrol-gui-bridge'')])) 200, w)
      else if req_path r = ''/screenshot'' then
        (case screenshot_params (req_query r) of
           Inl e \<Rightarrow> (error_response e, w)
         | Inr (fmt, quality, return_base64) \<Rightarrow>
             (case take_screenshot w fmt quality of
                (Inl e, w1) \<Rightarrow> (error_response e, w1)
              | (Inr image_data, w1) \<Rightarrow>
                  (if return_base64 then
                     (send_json (Base64Body fmt image_data) 200, w1)
                   else
                     (send_image image_data
                        (if fmt = ''jpeg'' then ''image/jpeg'' else ''image/png''), w1))))
      else if req_path r = ''/mouse/position'' then
        (case get_mouse_position w of (pos, w1) \<Rightarrow> (position_response pos, w1))
      else if req_path r = ''/ui/windows'' then
        (case get_windows w of
           (windows, w1) \<Rightarrow>
             (send_json (JsonBody (JObj [(''success'', JBool True),
                                         (''windows'', JArr windows)])) 200, w1))
      else (not_found, w))"

section \<open>ScreenControlTray: the status poll\<close>

text \<open>
  \<^verbatim>\<open>requests.get(health_url, timeout=2)\<close> gives a response with a status code or
  raises. The tray keeps the \<^verbatim>\<open>connected\<close> flag; label and icon changes are queued
  with \<^verbatim>\<open>GLib.idle_add\<close>, if the widget exists.
\<close>

datatype request_error = ConnectionRefused | TimedOut | OtherRequestError

datatype ui_call = Set_label string | Set_icon_full string string

record tray =
  connected :: bool
  has_status_item :: bool
  has_indicator :: bool
  idle_queue :: "ui_call list"

definition ICON_FALLBACK :: string where
  "ICON_FALLBACK = ''network-transmit-receive''"

definition idle_add :: "bool \<Rightarrow> ui_call \<Rightarrow> tray \<Rightarrow> tray" where
  "idle_add present c t = (if present then t\<lparr>idle_queue := idle_queue t @ [c]\<rparr> else t)"

text \<open>
  Lines 547 to 567. The result is what the timer gets back: \<open>Inr True\<close> keeps the timer,
  \<open>Inl e\<close> would be an exception leaving the callback.
\<close>

definition update_status :: "tray \<Rightarrow> request_error + int \<Rightarrow> (request_error + bool) \<times> tray" where
  "update_status t health =
     (case health of
        Inr status_code \<Rightarrow>
          (if status_code = 200 then
             (Inr True,
              idle_add (has_indicator t) (Set_icon_full ICON_FALLBACK ''Connected'')
                (idle_add (has_status_item t) (Set_label ''Status: Connected'')
                   (t\<lparr>connected := True\<rparr>)))
           else
             (Inr True,
              idle_add (has_status_item t) (Set_label ''Status: Disconnected'')
                (t\<lparr>connected := False\<rparr>)))
      | Inl e \<Rightarrow>
          (Inr True,
           idle_add (has_status_item t) (Set_label ''Status: Service not running'')
             (t\<lparr>connected := False\<rparr>)))"

text \<open>
  The timer of \<^verbatim>\<open>GLib.timeout_add_seconds(5, self.update_status)\<close>: one call per tick,
  for as long as the callback returns true. The result is the tray after the last call
  made and the number of calls made.
\<close>

fun poll_loop :: "tray \<Rightarrow> (request_error + int) list \<Rightarrow> tray \<times> nat" where
  "poll_loop t [] = (t, 0)"
| "poll_loop t (h # hs) =
     (case update_status t h of
        (Inr True, t1) \<Rightarrow> (case poll_loop t1 hs of (t2, n) \<Rightarrow> (t2, Suc n))
      | (_, t1) \<Rightarrow> (t1, 1))"

section \<open>Observations and sample machines\<close>

text \<open>The command lines run between the world \<open>w\<close> and a later world \<open>w'\<close>.\<close>

definition commands_of :: "world \<Rightarrow> world \<Rightarrow> argv list" where
  "commands_of w w' = drop (length (issued w)) (issued w')"

text \<open>The return code a command line would have in \<open>w\<close>, if the program starts.\<close>

definition exit_code :: "world \<Rightarrow> argv \<Rightarrow> int option" where
  "exit_code w a =
     (case programs w (issued w) a of NotStarted \<Rightarrow> None | Exited rc out ws \<Rightarrow> Some rc)"

text \<open>The program starts and exits with a code other than 0.\<close>

definition exits_nonzero :: "world \<Rightarrow> argv \<Rightarrow> bool" where
  "exits_nonzero w a = (case exit_code w a of None \<Rightarrow> False | Some rc \<Rightarrow> rc \<noteq> 0)"

text \<open>The world after a command line has run in \<open>w\<close>.\<close>

definition after_run :: "world \<Rightarrow> argv \<Rightarrow> world" where
  "after_run w a = snd (subprocess_run w a)"

text \<open>A machine with no file on which every program exits with the given code.\<close>

definition uniform_world :: "int \<Rightarrow> world" where
  "uniform_world rc =
     \<lparr>environ = (\<lambda>k. None), files = (\<lambda>p. None), issued = [], tmp_count = 0,
      programs = (\<lambda>h a. Exited rc [] [])\<rparr>"

text \<open>
  A machine with the given session type on which the capture tool named \<open>good\<close> writes
  \<open>d\<close> to the path it is given (its last argument) and exits with 0, and every other
  program exits with 1.
\<close>

definition capture_world :: "string option \<Rightarrow> string \<Rightarrow> filedata \<Rightarrow> world" where
  "capture_world session good d =
     \<lparr>environ = (\<lambda>k. if k = ''XDG_SESSION_TYPE'' then session else None),
      files = (\<lambda>p. None), issued = [], tmp_count = 0,
      programs = (\<lambda>h a. if a \<noteq> [] \<and> hd a = good then Exited 0 [] [(last a, d)]
                          else Exited 1 [] [])\<rparr>"

text \<open>A machine on which every program prints the given text and exits with 0.\<close>

definition printing_world :: "string \<Rightarrow> world" where
  "printing_world out =
     \<lparr>environ = (\<lambda>k. None), files = (\<lambda>p. None), issued = [], tmp_count = 0,
      programs = (\<lambda>h a. Exited 0 out [])\<rparr>"

definition gray_alpha_image :: image where
  "gray_alpha_image = \<lparr>img_mode = ''LA'', img_size = (1, 1), img_pixels = [[128, 255]]\<rparr>"

definition rgba_image :: image where
  "rgba_image = \<lparr>img_mode = ''RGBA'', img_size = (1, 1), img_pixels = [[10, 20, 30, 255]]\<rparr>"

text \<open>A decoder of request bodies that knows the empty object only.\<close>

definition sample_lib :: pylib where
  "sample_lib =
     \<lparr>json_loads = (\<lambda>b. if b = ''{}'' then Some (JObj []) else None),
      repr_of = (\<lambda>v. ''?'')\<rparr>"

definition post_request :: "string \<Rightarrow> string option \<Rightarrow> string \<Rightarrow> request" where
  "post_request path len b =
     \<lparr>req_path = path, req_query = [], content_length = len, req_body = b\<rparr>"

definition get_request :: "string \<Rightarrow> request" where
  "get_request path = \<lparr>req_path = path, req_query = [], content_length = None, req_body = []\<rparr>"

definition sample_tray :: tray where
  "sample_tray =
     \<lparr>connected = True, has_status_item = True, has_indicator = True, idle_queue = []\<rparr>"

section \<open>Facts about processes and commands\<close>

lemma issued_subprocess_run: "issued (snd (subprocess_run w a)) = issued w @ [a]"
  by (simp add: subprocess_run_def split: proc_outcome.splits)

lemma issued_after_run [simp]: "issued (after_run w a) = issued w @ [a]"
  by (simp add: after_run_def issued_subprocess_run)

lemma commands_of_append: "issued w' = issued w @ cs \<Longrightarrow> commands_of w w' = cs"
  by (simp add: commands_of_def)

text \<open>What \<^verbatim>\<open>check=True\<close> makes of each outcome.\<close>

lemma run_checked_cases:
  "run_checked w a =
     ((case exit_code w a of
         None \<Rightarrow> Inl SpawnError
       | Some rc \<Rightarrow>
           if rc \<noteq> 0 then Inl (CalledProcessError rc)
           else Inr (case programs w (issued w) a of
                       Exited r out ws \<Rightarrow> out
                     | NotStarted \<Rightarrow> [])),
      after_run w a)"
  by (auto simp: run_checked_def subprocess_run_def exit_code_def after_run_def
      split: proc_outcome.splits)

lemma exit_code_uniform: "exit_code (uniform_world rc) a = Some rc"
  by (simp add: exit_code_def uniform_world_def)

lemma uniform_world_issued: "issued (uniform_world rc) = []"
  by (simp add: uniform_world_def)

lemma capture_world_issued: "issued (capture_world s g d) = []"
  by (simp add: capture_world_def)

lemma exit_code_tmp: "exit_code (snd (named_temporary_file w)) a = exit_code w a"
  by (simp add: exit_code_def named_temporary_file_def Let_def)

lemma issued_tmp: "issued (snd (named_temporary_file w)) = issued w"
  by (simp add: named_temporary_file_def Let_def)

lemma environ_tmp: "environ (snd (named_temporary_file w)) = environ w"
  by (simp add: named_temporary_file_def Let_def)

lemma issued_os_unlink: "os_unlink w p = (r, w') \<Longrightarrow> issued w' = issued w"
  by (auto simp: os_unlink_def split: option.splits)

section \<open>The temporary capture file\<close>

text \<open>A program can write files but the model gives it no way to remove one.\<close>

lemma files_subprocess_run_some:
  "files w p \<noteq> None \<Longrightarrow> files (snd (subprocess_run w a)) p \<noteq> None"
proof -
  have "fs p \<noteq> None \<Longrightarrow> apply_writes ws fs p \<noteq> None" for ws fs
    unfolding apply_writes_def
    by (induction ws arbitrary: fs) (auto split: prod.splits)
  then show "files w p \<noteq> None \<Longrightarrow> files (snd (subprocess_run w a)) p \<noteq> None"
    by (auto simp: subprocess_run_def split: proc_outcome.splits)
qed

lemma files_run_checked_some:
  "files w p \<noteq> None \<Longrightarrow> files (snd (run_checked w a)) p \<noteq> None"
  using files_subprocess_run_some [of w p a]
  by (auto simp: run_checked_def split: prod.splits sum.splits)

lemma files_capture_to_some:
  "files w p \<noteq> None \<Longrightarrow> files (snd (capture_to w q)) p \<noteq> None"
proof -
  assume f: "files w p \<noteq> None"
  show ?thesis
  proof (cases "environ w ''XDG_SESSION_TYPE'' = Some ''wayland''")
    case True
    obtain r w1 where g: "subprocess_run w [''grim'', q] = (r, w1)"
      by (cases "subprocess_run w [''grim'', q]")
    have f1: "files w1 p \<noteq> None"
      using files_subprocess_run_some [OF f, of "[''grim'', q]"] by (simp add: g)
    obtain r2 w2 where h: "subprocess_run w1 [''gnome-screenshot'', ''-f'', q] = (r2, w2)"
      by (cases "subprocess_run w1 [''gnome-screenshot'', ''-f'', q]")
    have f2: "files w2 p \<noteq> None"
      using files_subprocess_run_some [OF f1, of "[''gnome-screenshot'', ''-f'', q]"]
      by (simp add: h)
    show ?thesis
      using True f1 f2 by (auto simp: capture_to_def g h split: sum.splits)
  next
    case False
    then show ?thesis
      using files_run_checked_some [OF f, of "[''scrot'', ''-o'', q]"]
      by (auto simp: capture_to_def split: prod.splits sum.splits)
  qed
qed

lemma files_tmp: "files (snd (named_temporary_file w)) (tmp_path_of w) \<noteq> None"
  by (simp add: named_temporary_file_def tmp_path_of_def Let_def)

text \<open>
  What the code does with the temporary file, on every path: the file is gone after the
  call exactly when the call returns image bytes. Whenever an exception leaves
  \<open>take_screenshot\<close>, the file is still there.
\<close>

lemma tmp_file_removed_iff_success:
  "files (snd (take_screenshot w fmt q)) (tmp_path_of w) = None \<longleftrightarrow>
     (\<exists>d. fst (take_screenshot w fmt q) = Inr d)"
proof -
  obtain p w1 where n: "named_temporary_file w = (p, w1)"
    by (cases "named_temporary_file w")
  have p: "tmp_path_of w = p"
    by (simp add: tmp_path_of_def n)
  obtain c w2 where c: "capture_to w1 p = (c, w2)"
    by (cases "capture_to w1 p")
  have "files w1 p \<noteq> None"
    using files_tmp [of w] by (simp add: n p)
  then have f2: "files w2 p \<noteq> None"
    using files_capture_to_some [of w1 p p] by (simp add: c)
  show ?thesis
    using f2
    by (auto simp: take_screenshot_def n c p os_unlink_def image_open_def
        split: sum.splits option.splits filedata.splits)
qed

text \<open>
  Claim C1: for every capture request the temporary capture file made by
  \<open>take_screenshot\<close> is deleted before the operation returns, on every path, also when
  decoding or re-encoding fails.

  The code deletes the file on the successful path only. On an X11 session where scrot
  exits with 0 but leaves a file that is no image, decoding raises and the file
  \<^verbatim>\<open>/tmp/tmp0.png\<close> is still there after the call; the same happens when scrot
  writes a grey image with alpha and JPEG is requested, so that re-encoding raises.
\<close>

theorem take_screenshot_leaves_tmp_file:
  "fst (take_screenshot (capture_world None ''scrot'' NotAnImage) ''png'' 80) =
     Inl UnidentifiedImageError \<and>
   files (snd (take_screenshot (capture_world None ''scrot'' NotAnImage) ''png'' 80))
     ''/tmp/tmp0.png'' = Some NotAnImage \<and>
   fst (take_screenshot (capture_world None ''scrot'' (ImageData gray_alpha_image)) ''jpeg'' 80) =
     Inl (CannotWriteMode ''LA'' ''JPEG'') \<and>
   files (snd (take_screenshot (capture_world None ''scrot'' (ImageData gray_alpha_image))
       ''jpeg'' 80)) ''/tmp/tmp0.png'' = Some (ImageData gray_alpha_image)"
  by code_simp

section \<open>Choice of the capture backend\<close>

lemma capture_to_commands:
  "issued (snd (capture_to w p)) = issued w @
     (if environ w ''XDG_SESSION_TYPE'' = Some ''wayland''
      then [''grim'', p] #
             (if exits_nonzero w [''grim'', p] then [[''gnome-screenshot'', ''-f'', p]] else [])
      else [[''scrot'', ''-o'', p]])"
  by (auto simp: capture_to_def exits_nonzero_def exit_code_def run_checked_def
      subprocess_run_def split: proc_outcome.splits)

lemma capture_to_scrot_failure:
  "environ w ''XDG_SESSION_TYPE'' \<noteq> Some ''wayland'' \<Longrightarrow>
   exit_code w [''scrot'', ''-o'', p] = Some rc \<Longrightarrow> rc \<noteq> 0 \<Longrightarrow>
   fst (capture_to w p) = Inl (CalledProcessError rc)"
  by (auto simp: capture_to_def exit_code_def run_checked_def
      subprocess_run_def split: proc_outcome.splits)

text \<open>Decoding, re-encoding and unlinking start no program.\<close>

lemma take_screenshot_issued:
  "issued (snd (take_screenshot w fmt q)) =
     issued (snd (capture_to (snd (named_temporary_file w)) (tmp_path_of w)))"
proof -
  obtain p w1 where n: "named_temporary_file w = (p, w1)"
    by (cases "named_temporary_file w")
  obtain c w2 where c: "capture_to w1 p = (c, w2)"
    by (cases "capture_to w1 p")
  show ?thesis
    by (auto simp: take_screenshot_def tmp_path_of_def n c split: sum.splits prod.splits
        dest: issued_os_unlink)
qed

lemma tmp_path_uniform: "tmp_path_of (uniform_world rc) = ''/tmp/tmp0.png''"
  by code_simp

lemma tmp_path_capture_world: "tmp_path_of (capture_world s g d) = ''/tmp/tmp0.png''"
  by code_simp

lemma wayland_fallback_example:
  "environ (capture_world (Some ''wayland'') ''gnome-screenshot'' (ImageData rgba_image))
     ''XDG_SESSION_TYPE'' = Some ''wayland'' \<and>
   exits_nonzero (capture_world (Some ''wayland'') ''gnome-screenshot'' (ImageData rgba_image))
     [''grim'', ''/tmp/tmp0.png''] \<and>
   fst (take_screenshot (capture_world (Some ''wayland'') ''gnome-screenshot''
          (ImageData rgba_image)) ''png'' 80) = Inr (PNG_of rgba_image)"
  by code_simp

lemma wayland_grim_example:
  "environ (capture_world (Some ''wayland'') ''grim'' (ImageData rgba_image))
     ''XDG_SESSION_TYPE'' = Some ''wayland'' \<and>
   \<not> exits_nonzero (capture_world (Some ''wayland'') ''grim'' (ImageData rgba_image))
     [''grim'', ''/tmp/tmp0.png'']"
  by code_simp

lemma x11_environ_example: "environ (uniform_world rc) ''XDG_SESSION_TYPE'' = None"
  by (simp add: uniform_world_def)

text \<open>
  Claim C2: capture backend selection follows the session type. When the session type
  is wayland, grim is attempted first and gnome-screenshot is run as fallback exactly
  when grim exits non-zero. In every other session scrot is invoked directly, and a
  non-zero scrot exit makes the whole capture fail (the \<^verbatim>\<open>CalledProcessError\<close>
  leaves \<open>take_screenshot\<close>), with no further fallback.

  The theorem gives the complete list of command lines one call runs.
\<close>

theorem capture_backend_selection:
  "commands_of w (snd (take_screenshot w fmt q)) =
     (if environ w ''XDG_SESSION_TYPE'' = Some ''wayland''
      then [''grim'', tmp_path_of w] #
             (if exits_nonzero w [''grim'', tmp_path_of w]
              then [[''gnome-screenshot'', ''-f'', tmp_path_of w]] else [])
      else [[''scrot'', ''-o'', tmp_path_of w]]) \<and>
   (environ w ''XDG_SESSION_TYPE'' \<noteq> Some ''wayland'' \<and>
    exit_code w [''scrot'', ''-o'', tmp_path_of w] = Some rc \<and> rc \<noteq> 0 \<longrightarrow>
      fst (take_screenshot w fmt q) = Inl (CalledProcessError rc))"
proof -
  have e: "exits_nonzero (snd (named_temporary_file w)) a = exits_nonzero w a" for a
    by (simp add: exits_nonzero_def exit_code_tmp)
  have 1: "commands_of w (snd (take_screenshot w fmt q)) =
     (if environ w ''XDG_SESSION_TYPE'' = Some ''wayland''
      then [''grim'', tmp_path_of w] #
             (if exits_nonzero w [''grim'', tmp_path_of w]
              then [[''gnome-screenshot'', ''-f'', tmp_path_of w]] else [])
      else [[''scrot'', ''-o'', tmp_path_of w]])"
    by (rule commands_of_append)
      (simp add: take_screenshot_issued capture_to_commands e issued_tmp environ_tmp)
  have 2: "fst (take_screenshot w fmt q) = Inl (CalledProcessError rc)"
    if a: "environ w ''XDG_SESSION_TYPE'' \<noteq> Some ''wayland''"
      and b: "exit_code w [''scrot'', ''-o'', tmp_path_of w] = Some rc" and c: "rc \<noteq> 0"
  proof -
    obtain p w1 where n: "named_temporary_file w = (p, w1)"
      by (cases "named_temporary_file w")
    have p: "tmp_path_of w = p" and w1: "snd (named_temporary_file w) = w1"
      by (simp_all add: tmp_path_of_def n)
    have "fst (capture_to w1 p) = Inl (CalledProcessError rc)"
      using capture_to_scrot_failure [of w1 p rc] a b c
        exit_code_tmp [of w] environ_tmp [of w] by (simp add: p w1)
    then show ?thesis
      by (auto simp: take_screenshot_def n split: prod.splits sum.splits)
  qed
  from 1 2 show ?thesis by blast
qed

theorem capture_backend_selection_witness:
  "commands_of (uniform_world 1) (snd (take_screenshot (uniform_world 1) ''png'' 80)) =
     [[''scrot'', ''-o'', ''/tmp/tmp0.png'']] \<and>
   fst (take_screenshot (uniform_world 1) ''png'' 80) = Inl (CalledProcessError 1) \<and>
   commands_of (capture_world (Some ''wayland'') ''gnome-screenshot'' (ImageData rgba_image))
     (snd (take_screenshot (capture_world (Some ''wayland'') ''gnome-screenshot''
             (ImageData rgba_image)) ''png'' 80)) =
     [[''grim'', ''/tmp/tmp0.png''], [''gnome-screenshot'', ''-f'', ''/tmp/tmp0.png'']] \<and>
   commands_of (capture_world (Some ''wayland'') ''grim'' (ImageData rgba_image))
     (snd (take_screenshot (capture_world (Some ''wayland'') ''grim'' (ImageData rgba_image))
             ''png'' 80)) =
     [[''grim'', ''/tmp/tmp0.png'']]"
proof -
  have h: "environ (uniform_world 1) ''XDG_SESSION_TYPE'' \<noteq> Some ''wayland'' \<and>
      exit_code (uniform_world 1) [''scrot'', ''-o'', ''/tmp/tmp0.png''] = Some 1 \<and> (1::int) \<noteq> 0"
    by (simp add: x11_environ_example exit_code_uniform)
  note x = capture_backend_selection [of "uniform_world 1" "''png''" 80 1,
      unfolded tmp_path_uniform]
  have 1: "commands_of (uniform_world 1) (snd (take_screenshot (uniform_world 1) ''png'' 80)) =
      [[''scrot'', ''-o'', ''/tmp/tmp0.png'']]"
    using x [THEN conjunct1] by (simp add: x11_environ_example)
  have 2: "fst (take_screenshot (uniform_world 1) ''png'' 80) = Inl (CalledProcessError 1)"
    by (rule x [THEN conjunct2, THEN mp, OF h])
  have 3: "commands_of (capture_world (Some ''wayland'') ''gnome-screenshot'' (ImageData rgba_image))
     (snd (take_screenshot (capture_world (Some ''wayland'') ''gnome-screenshot''
             (ImageData rgba_image)) ''png'' 80)) =
     [[''grim'', ''/tmp/tmp0.png''], [''gnome-screenshot'', ''-f'', ''/tmp/tmp0.png'']]"
    using capture_backend_selection [of "capture_world (Some ''wayland'') ''gnome-screenshot''
        (ImageData rgba_image)" "''png''" 80 1, unfolded tmp_path_capture_world, THEN conjunct1]
      wayland_fallback_example
    by simp
  have 4: "commands_of (capture_world (Some ''wayland'') ''grim'' (ImageData rgba_image))
     (snd (take_screenshot (capture_world (Some ''wayland'') ''grim'' (ImageData rgba_image))
             ''png'' 80)) =
     [[''grim'', ''/tmp/tmp0.png'']]"
    using capture_backend_selection [of "capture_world (Some ''wayland'') ''grim''
        (ImageData rgba_image)" "''png''" 80 1, unfolded tmp_path_capture_world, THEN conjunct1]
      wayland_grim_example
    by simp
  from 1 2 3 4 show ?thesis
    by (intro conjI)
qed

section \<open>Re-encoding\<close>

text \<open>What the code does for the one alpha mode it tests for.\<close>

lemma reencode_rgba:
  "img_mode img = ''RGBA'' \<Longrightarrow>
   reencode img ''jpeg'' q = Inr (JPEG_of (convert_RGB img) q) \<and>
   bands (JPEG_of (convert_RGB img) q) = ''RGB''"
  by (simp add: reencode_def py_lower_def lower_char_def save_jpeg_def convert_RGB_def
      jpeg_modes_def bands_def)

lemma jpeg_rgba_flattened:
  "fst (take_screenshot (capture_world None ''scrot'' (ImageData rgba_image)) ''jpeg'' 80) =
     Inr (JPEG_of \<lparr>img_mode = ''RGB'', img_size = (1, 1), img_pixels = [[10, 20, 30]]\<rparr> 80)"
  by code_simp

text \<open>
  Claim C5: for every capture with format jpeg, if the decoded source image carries an
  alpha channel, the re-encoded result is a 3-channel RGB JPEG (the alpha channel is
  flattened), encoded at the requested quality level.

  The code converts to RGB only when the mode is exactly \<^verbatim>\<open>RGBA\<close>. A grey image
  with alpha (mode \<^verbatim>\<open>LA\<close>, which a PNG file can hold) carries an alpha channel, is
  handed to the JPEG writer unconverted, and the capture fails.
\<close>

theorem jpeg_gray_alpha_not_flattened:
  "has_alpha gray_alpha_image \<and>
   fst (take_screenshot (capture_world None ''scrot'' (ImageData gray_alpha_image)) ''jpeg'' 80) =
     Inl (CannotWriteMode ''LA'' ''JPEG'')"
  by code_simp

lemma reencode_png: "reencode img ''png'' q = save_png img"
  by (simp add: reencode_def py_lower_def lower_char_def)

lemma png_capture_example:
  "fst (take_screenshot (capture_world None ''scrot'' (ImageData rgba_image)) ''png'' 10) =
     Inr (PNG_of rgba_image)"
  by code_simp

text \<open>
  Claim C9: for every pair of quality values q1 and q2 and a fixed captured source
  image, a capture with format png and quality q1 returns the same image bytes as one
  with quality q2: the quality parameter has no effect when the format is png.

  The two calls start in the same world, so the backend leaves the same file; the
  results and the worlds after the calls are equal.
\<close>

theorem png_quality_irrelevant:
  "take_screenshot w ''png'' q1 = take_screenshot w ''png'' q2"
  unfolding take_screenshot_def reencode_png by (rule refl)

theorem png_quality_irrelevant_witness:
  "take_screenshot (capture_world None ''scrot'' (ImageData rgba_image)) ''png'' 10 =
   take_screenshot (capture_world None ''scrot'' (ImageData rgba_image)) ''png'' 90 \<and>
   fst (take_screenshot (capture_world None ''scrot'' (ImageData rgba_image)) ''png'' 90) =
     Inr (PNG_of rgba_image)"
  using png_quality_irrelevant [of "capture_world None ''scrot'' (ImageData rgba_image)" 10 90]
    png_capture_example
  by simp

section \<open>Clicks\<close>

lemma exit_code_after_warp:
  "exit_code (after_run (uniform_world 0) (warp 5 5)) [''xdotool'', ''click'', ''1''] = Some 0"
  by code_simp

lemma warp_5_5: "warp 5 5 = [''xdotool'', ''mousemove'', ''5'', ''5'']"
  by code_simp

lemma warp_5_7: "warp 5 7 = [''xdotool'', ''mousemove'', ''5'', ''7'']"
  by code_simp

text \<open>
  What one Click call with integer coordinates and a string button does, in every
  world: the warp, then the click with the index of the button if the warp exited
  with 0; it returns true exactly when both commands exited with 0.
\<close>

lemma click_dispatch:
  "button_index (JStr b) = Inr idx \<Longrightarrow>
   commands_of w (snd (click w (JInt x) (JInt y) (JStr b))) =
     warp x y # (if exit_code w (warp x y) = Some 0 then [[''xdotool'', ''click'', idx]] else []) \<and>
   fst (click w (JInt x) (JInt y) (JStr b)) =
     (exit_code w (warp x y) = Some 0 \<and>
      exit_code (after_run w (warp x y)) [''xdotool'', ''click'', idx] = Some 0)"
  by (auto simp: click_def returns_bool_def and_then_def exec_checked_def
      mousemove_argv_def run_checked_cases commands_of_def split: option.splits)

text \<open>What one DoubleClick call with integer coordinates returns, in every world.\<close>

lemma double_click_result:
  "fst (double_click w (JInt x) (JInt y)) =
     (exit_code w (warp x y) = Some 0 \<and>
      exit_code (after_run w (warp x y)) [''xdotool'', ''click'', ''--repeat'', ''2'', ''1''] = Some 0)"
  by (auto simp: double_click_def returns_bool_def and_then_def exec_checked_def
      mousemove_argv_def run_checked_cases split: option.splits)

text \<open>
  Claim C4: for every Click(x, y, button) call the button name maps to the backend
  button index as follows: left to 1, right to 3, middle to 2, and every other button
  string (the empty string included) to 1; the click then goes ahead with the left
  index instead of being rejected as an error.

  The first three conjuncts are the table. The next six say what Click itself does with
  the three names, in every world \<open>w\<close> and for all integer coordinates: after the warp it
  runs \<^verbatim>\<open>xdotool click\<close> with index 1, 3 and 2 (if the warp exited with 0), and it
  returns true exactly when both commands exited with 0. For a string \<open>b\<close> that is none
  of the three names, the call behaves for all arguments exactly as the call with
  \<^verbatim>\<open>left\<close>: it dispatches index 1 and succeeds whenever the two commands do.
\<close>

theorem click_button_index:
  "button_index (JStr ''left'') = Inr ''1'' \<and>
   button_index (JStr ''right'') = Inr ''3'' \<and>
   button_index (JStr ''middle'') = Inr ''2'' \<and>
   commands_of w (snd (click w (JInt xi) (JInt yi) (JStr ''left''))) =
     warp xi yi #
       (if exit_code w (warp xi yi) = Some 0 then [[''xdotool'', ''click'', ''1'']] else []) \<and>
   commands_of w (snd (click w (JInt xi) (JInt yi) (JStr ''right''))) =
     warp xi yi #
       (if exit_code w (warp xi yi) = Some 0 then [[''xdotool'', ''click'', ''3'']] else []) \<and>
   commands_of w (snd (click w (JInt xi) (JInt yi) (JStr ''middle''))) =
     warp xi yi #
       (if exit_code w (warp xi yi) = Some 0 then [[''xdotool'', ''click'', ''2'']] else []) \<and>
   fst (click w (JInt xi) (JInt yi) (JStr ''left'')) =
     (exit_code w (warp xi yi) = Some 0 \<and>
      exit_code (after_run w (warp xi yi)) [''xdotool'', ''click'', ''1''] = Some 0) \<and>
   fst (click w (JInt xi) (JInt yi) (JStr ''right'')) =
     (exit_code w (warp xi yi) = Some 0 \<and>
      exit_code (after_run w (warp xi yi)) [''xdotool'', ''click'', ''3''] = Some 0) \<and>
   fst (click w (JInt xi) (JInt yi) (JStr ''middle'')) =
     (exit_code w (warp xi yi) = Some 0 \<and>
      exit_code (after_run w (warp xi yi)) [''xdotool'', ''click'', ''2''] = Some 0) \<and>
   (b \<notin> {''left'', ''right'', ''middle''} \<longrightarrow>
      button_index (JStr b) = Inr ''1'' \<and>
      click w x y (JStr b) = click w x y (JStr ''left'') \<and>
      commands_of w (snd (click w (JInt xi) (JInt yi) (JStr b))) =
        warp xi yi #
          (if exit_code w (warp xi yi) = Some 0 then [[''xdotool'', ''click'', ''1'']] else []) \<and>
      fst (click w (JInt xi) (JInt yi) (JStr b)) =
        (exit_code w (warp xi yi) = Some 0 \<and>
         exit_code (after_run w (warp xi yi)) [''xdotool'', ''click'', ''1''] = Some 0) \<and>
      (exit_code w (warp xi yi) = Some 0 \<and>
       exit_code (after_run w (warp xi yi)) [''xdotool'', ''click'', ''1''] = Some 0 \<longrightarrow>
         fst (click w (JInt xi) (JInt yi) (JStr b)) = True \<and>
         commands_of w (snd (click w (JInt xi) (JInt yi) (JStr b))) =
           [warp xi yi, [''xdotool'', ''click'', ''1'']]))"
proof -
  have l: "button_index (JStr ''left'') = Inr ''1''"
    and r: "button_index (JStr ''right'') = Inr ''3''"
    and m: "button_index (JStr ''middle'') = Inr ''2''"
    by (simp_all add: button_index_def)
  note dl = click_dispatch [OF l, of w xi yi]
  note dr = click_dispatch [OF r, of w xi yi]
  note dm = click_dispatch [OF m, of w xi yi]
  have other: "b \<notin> {''left'', ''right'', ''middle''} \<longrightarrow>
      button_index (JStr b) = Inr ''1'' \<and>
      click w x y (JStr b) = click w x y (JStr ''left'') \<and>
      commands_of w (snd (click w (JInt xi) (JInt yi) (JStr b))) =
        warp xi yi #
          (if exit_code w (warp xi yi) = Some 0 then [[''xdotool'', ''click'', ''1'']] else []) \<and>
      fst (click w (JInt xi) (JInt yi) (JStr b)) =
        (exit_code w (warp xi yi) = Some 0 \<and>
         exit_code (after_run w (warp xi yi)) [''xdotool'', ''click'', ''1''] = Some 0) \<and>
      (exit_code w (warp xi yi) = Some 0 \<and>
       exit_code (after_run w (warp xi yi)) [''xdotool'', ''click'', ''1''] = Some 0 \<longrightarrow>
         fst (click w (JInt xi) (JInt yi) (JStr b)) = True \<and>
         commands_of w (snd (click w (JInt xi) (JInt yi) (JStr b))) =
           [warp xi yi, [''xdotool'', ''click'', ''1'']])"
  proof (rule impI)
    assume n: "b \<notin> {''left'', ''right'', ''middle''}"
    have o: "button_index (JStr b) = Inr ''1''"
      using n by (simp add: button_index_def)
    have s: "click w x y (JStr b) = click w x y (JStr ''left'')"
      by (simp add: click_def o l)
    note d = click_dispatch [OF o, of w xi yi]
    from o s d show "button_index (JStr b) = Inr ''1'' \<and>
      click w x y (JStr b) = click w x y (JStr ''left'') \<and>
      commands_of w (snd (click w (JInt xi) (JInt yi) (JStr b))) =
        warp xi yi #
          (if exit_code w (warp xi yi) = Some 0 then [[''xdotool'', ''click'', ''1'']] else []) \<and>
      fst (click w (JInt xi) (JInt yi) (JStr b)) =
        (exit_code w (warp xi yi) = Some 0 \<and>
         exit_code (after_run w (warp xi yi)) [''xdotool'', ''click'', ''1''] = Some 0) \<and>
      (exit_code w (warp xi yi) = Some 0 \<and>
       exit_code (after_run w (warp xi yi)) [''xdotool'', ''click'', ''1''] = Some 0 \<longrightarrow>
         fst (click w (JInt xi) (JInt yi) (JStr b)) = True \<and>
         commands_of w (snd (click w (JInt xi) (JInt yi) (JStr b))) =
           [warp xi yi, [''xdotool'', ''click'', ''1'']])"
      by simp
  qed
  note parts = l r m dl [THEN conjunct1] dr [THEN conjunct1] dm [THEN conjunct1]
    dl [THEN conjunct2] dr [THEN conjunct2] dm [THEN conjunct2] other
  show ?thesis
    by (intro conjI) (rule parts)+
qed

theorem click_button_index_witness:
  "''nonsense'' \<notin> {''left'', ''right'', ''middle''} \<and>
   [] \<notin> {''left'', ''right'', ''middle''} \<and>
   button_index (JStr ''nonsense'') = Inr ''1'' \<and>
   button_index (JStr []) = Inr ''1'' \<and>
   click (uniform_world 0) (JInt 5) (JInt 5) (JStr ''nonsense'') =
     click (uniform_world 0) (JInt 5) (JInt 5) (JStr ''left'') \<and>
   fst (click (uniform_world 0) (JInt 5) (JInt 5) (JStr ''nonsense'')) = True \<and>
   commands_of (uniform_world 0) (snd (click (uniform_world 0) (JInt 5) (JInt 5) (JStr ''nonsense''))) =
     [[''xdotool'', ''mousemove'', ''5'', ''5''], [''xdotool'', ''click'', ''1'']] \<and>
   commands_of (uniform_world 0) (snd (click (uniform_world 0) (JInt 5) (JInt 5) (JStr ''right''))) =
     [[''xdotool'', ''mousemove'', ''5'', ''5''], [''xdotool'', ''click'', ''3'']] \<and>
   commands_of (uniform_world 0) (snd (click (uniform_world 0) (JInt 5) (JInt 5) (JStr ''middle''))) =
     [[''xdotool'', ''mousemove'', ''5'', ''5''], [''xdotool'', ''click'', ''2'']] \<and>
   fst (click (uniform_world 1) (JInt 5) (JInt 5) (JStr ''right'')) = False"
proof -
  have n: "''nonsense'' \<notin> {''left'', ''right'', ''middle''}" "[] \<notin> {''left'', ''right'', ''middle''}"
    by simp_all
  have e: "exit_code (uniform_world 0) (warp 5 5) = Some 0"
    by (rule exit_code_uniform)
  have f: "exit_code (uniform_world 1) (warp 5 5) = Some 1"
    by (rule exit_code_uniform)
  note t = click_button_index [of "uniform_world 0" 5 5 "''nonsense''" "JInt 5" "JInt 5"]
  note u = click_button_index [of "uniform_world 0" 5 5 "[]" "JInt 5" "JInt 5"]
  note v = click_button_index [of "uniform_world 1" 5 5 "[]" "JInt 5" "JInt 5"]
  have 1: "commands_of (uniform_world 0)
      (snd (click (uniform_world 0) (JInt 5) (JInt 5) (JStr ''right''))) =
     [[''xdotool'', ''mousemove'', ''5'', ''5''], [''xdotool'', ''click'', ''3'']]"
    using t e by (simp add: warp_5_5)
  have 2: "commands_of (uniform_world 0)
      (snd (click (uniform_world 0) (JInt 5) (JInt 5) (JStr ''middle''))) =
     [[''xdotool'', ''mousemove'', ''5'', ''5''], [''xdotool'', ''click'', ''2'']]"
    using t e by (simp add: warp_5_5)
  have 3: "fst (click (uniform_world 1) (JInt 5) (JInt 5) (JStr ''right'')) = False"
    using v f by simp
  have 4: "button_index (JStr ''nonsense'') = Inr ''1'' \<and>
      click (uniform_world 0) (JInt 5) (JInt 5) (JStr ''nonsense'') =
        click (uniform_world 0) (JInt 5) (JInt 5) (JStr ''left'') \<and>
      fst (click (uniform_world 0) (JInt 5) (JInt 5) (JStr ''nonsense'')) = True \<and>
      commands_of (uniform_world 0)
        (snd (click (uniform_world 0) (JInt 5) (JInt 5) (JStr ''nonsense''))) =
        [[''xdotool'', ''mousemove'', ''5'', ''5''], [''xdotool'', ''click'', ''1'']]"
    using t [unfolded warp_5_5] n(1) e [unfolded warp_5_5] exit_code_after_warp [unfolded warp_5_5]
    by blast
  have 5: "button_index (JStr []) = Inr ''1''"
    using u n(2) by blast
  note parts = n 1 2 3 5 4 [THEN conjunct1] 4 [THEN conjunct2, THEN conjunct1]
    4 [THEN conjunct2, THEN conjunct2, THEN conjunct1]
    4 [THEN conjunct2, THEN conjunct2, THEN conjunct2]
  show ?thesis
    by (intro conjI) (rule parts)+
qed

text \<open>Every Click call with integer coordinates and a string button warps once.\<close>

lemma click_issued:
  "\<exists>cs. issued (snd (click w (JInt x) (JInt y) (JStr b))) = issued w @ warp x y # cs \<and>
        warp x y \<notin> set cs"
  by (auto simp: click_def button_index_def returns_bool_def and_then_def exec_checked_def
      mousemove_argv_def run_checked_cases warp_def split: option.splits)

text \<open>So two Click calls in a row warp twice, whatever the backend answers.\<close>

lemma two_clicks_warp_twice:
  "count_list (commands_of w (snd (click (snd (click w (JInt x) (JInt y) (JStr b)))
      (JInt x) (JInt y) (JStr b')))) (warp x y) = 2"
proof -
  let ?w1 = "snd (click w (JInt x) (JInt y) (JStr b))"
  obtain cs where 1: "issued ?w1 = issued w @ warp x y # cs" and c1: "warp x y \<notin> set cs"
    using click_issued [of w x y b] by blast
  obtain ds where 2: "issued (snd (click ?w1 (JInt x) (JInt y) (JStr b'))) = issued ?w1 @ warp x y # ds"
    and c2: "warp x y \<notin> set ds"
    using click_issued [of ?w1 x y b'] by blast
  have "commands_of w (snd (click ?w1 (JInt x) (JInt y) (JStr b'))) =
          (warp x y # cs) @ (warp x y # ds)"
    by (rule commands_of_append) (simp add: 1 2)
  then show ?thesis
    using c1 c2 by (simp add: count_list_0_iff)
qed

lemma double_click_failed_issued:
  "issued (snd (double_click (uniform_world 1) (JInt 5) (JInt 7))) =
     [[''xdotool'', ''mousemove'', ''5'', ''7'']]"
  by code_simp

lemma double_click_failed_result:
  "fst (double_click (uniform_world 1) (JInt 5) (JInt 7)) = False"
  by code_simp

text \<open>
  Claim C6, as amended: for every DoubleClick(x, y) call with integer coordinates exactly
  one pointer warp to (x, y) is run. When the warp exits with 0 it is followed by a
  single click command with repeat count 2 on the left button; when the warp fails, the
  operation stops there, no click command is run and the call reports failure. The
  operation never runs the plain click command of Click and never warps twice.

  As stated, the claim has the click command follow the warp on every call. The fourth
  conjunct gives what the call returns in every world: true exactly when the warp and
  the click command both exited with 0, so a warp that exits non-zero or cannot be
  started makes the call return false.
\<close>

theorem double_click_commands:
  "commands_of w (snd (double_click w (JInt x) (JInt y))) =
     warp x y #
       (if exit_code w (warp x y) = Some 0
        then [[''xdotool'', ''click'', ''--repeat'', ''2'', ''1'']] else []) \<and>
   count_list (commands_of w (snd (double_click w (JInt x) (JInt y)))) (warp x y) = 1 \<and>
   [''xdotool'', ''click'', ''1''] \<notin> set (commands_of w (snd (double_click w (JInt x) (JInt y)))) \<and>
   fst (double_click w (JInt x) (JInt y)) =
     (exit_code w (warp x y) = Some 0 \<and>
      exit_code (after_run w (warp x y)) [''xdotool'', ''click'', ''--repeat'', ''2'', ''1''] =
        Some 0) \<and>
   (exit_code w (warp x y) \<noteq> Some 0 \<longrightarrow>
      fst (double_click w (JInt x) (JInt y)) = False \<and>
      commands_of w (snd (double_click w (JInt x) (JInt y))) = [warp x y])"
proof -
  have c: "commands_of w (snd (double_click w (JInt x) (JInt y))) =
     warp x y #
       (if exit_code w (warp x y) = Some 0
        then [[''xdotool'', ''click'', ''--repeat'', ''2'', ''1'']] else [])"
    by (auto simp: double_click_def returns_bool_def and_then_def exec_checked_def
        mousemove_argv_def run_checked_cases commands_of_def split: option.splits)
  have n: "count_list (commands_of w (snd (double_click w (JInt x) (JInt y)))) (warp x y) = 1"
    by (simp add: c warp_def)
  have p: "[''xdotool'', ''click'', ''1''] \<notin>
      set (commands_of w (snd (double_click w (JInt x) (JInt y))))"
    by (simp add: c warp_def)
  note r = double_click_result [of w x y]
  have f: "exit_code w (warp x y) \<noteq> Some 0 \<longrightarrow>
      fst (double_click w (JInt x) (JInt y)) = False \<and>
      commands_of w (snd (double_click w (JInt x) (JInt y))) = [warp x y]"
    by (simp add: r c)
  note parts = c n p r f
  show ?thesis
    by (intro conjI) (rule parts)+
qed

theorem double_click_commands_witness:
  "commands_of (uniform_world 0) (snd (double_click (uniform_world 0) (JInt 5) (JInt 7))) =
     [[''xdotool'', ''mousemove'', ''5'', ''7''], [''xdotool'', ''click'', ''--repeat'', ''2'', ''1'']] \<and>
   count_list (commands_of (uniform_world 0) (snd (double_click (uniform_world 0) (JInt 5) (JInt 7))))
     [''xdotool'', ''mousemove'', ''5'', ''7''] = 1 \<and>
   exit_code (uniform_world 1) (warp 5 7) \<noteq> Some 0 \<and>
   fst (double_click (uniform_world 1) (JInt 5) (JInt 7)) = False \<and>
   commands_of (uniform_world 1) (snd (double_click (uniform_world 1) (JInt 5) (JInt 7))) =
     [[''xdotool'', ''mousemove'', ''5'', ''7'']]"
proof -
  have e: "exit_code (uniform_world 1) (warp 5 7) \<noteq> Some 0"
    by (simp add: exit_code_uniform)
  have 1: "commands_of (uniform_world 0) (snd (double_click (uniform_world 0) (JInt 5) (JInt 7))) =
     [[''xdotool'', ''mousemove'', ''5'', ''7''], [''xdotool'', ''click'', ''--repeat'', ''2'', ''1'']] \<and>
   count_list (commands_of (uniform_world 0) (snd (double_click (uniform_world 0) (JInt 5) (JInt 7))))
     [''xdotool'', ''mousemove'', ''5'', ''7''] = 1"
    using double_click_commands [of "uniform_world 0" 5 7]
    by (simp add: exit_code_uniform warp_5_7)
  have 2: "fst (double_click (uniform_world 1) (JInt 5) (JInt 7)) = False \<and>
      commands_of (uniform_world 1) (snd (double_click (uniform_world 1) (JInt 5) (JInt 7))) =
        [warp 5 7]"
    by (rule double_click_commands [of "uniform_world 1" 5 7, THEN conjunct2, THEN conjunct2,
          THEN conjunct2, THEN conjunct2, THEN mp, OF e])
  note parts = e 1 [THEN conjunct1] 1 [THEN conjunct2] 2 [unfolded warp_5_7, THEN conjunct1]
    2 [unfolded warp_5_7, THEN conjunct2]
  show ?thesis
    by (intro conjI) (rule parts)+
qed

theorem double_click_failed_warp_counterexample:
  "commands_of (uniform_world 1) (snd (double_click (uniform_world 1) (JInt 5) (JInt 7))) =
     [[''xdotool'', ''mousemove'', ''5'', ''7'']] \<and>
   fst (double_click (uniform_world 1) (JInt 5) (JInt 7)) = False"
  by (simp add: commands_of_def uniform_world_issued double_click_failed_issued
      double_click_failed_result)

section \<open>The pointer position route\<close>

text \<open>Each way the query can fail ends in the \<^verbatim>\<open>except\<close> clause.\<close>

lemma query_location_fails:
  "exit_code w [''xdotool'', ''getmouselocation''] \<noteq> Some 0 \<Longrightarrow>
     \<exists>e. fst (query_location w) = Inl e"
  by (auto simp: query_location_def run_checked_cases split: option.splits)

lemma query_location_broken:
  "fst (query_location (uniform_world 1)) = Inl (CalledProcessError 1)"
  by code_simp

lemma query_location_garbled:
  "fst (query_location (printing_world ''no display'')) = Inl IndexError"
  by code_simp

lemma query_location_not_a_number:
  "fst (query_location (printing_world ''x:12 y:abc screen:0'')) = Inl ValueError"
  by code_simp

lemma query_location_origin:
  "fst (query_location (printing_world ''x:0 y:0 screen:0 window:1'')) = Inr (0, 0)"
  by code_simp

lemma get_request_path: "req_path (get_request p) = p"
  by (simp add: get_request_def)

text \<open>
  Claim C10: GET /mouse/position never returns an HTTP 500. When the backend query for
  the pointer location fails for any reason, \<open>get_mouse_position\<close> swallows the error
  and returns the coordinates (0, 0), so the response is still 200 with
  \<^verbatim>\<open>{success: true, x: 0, y: 0}\<close>, the very response given when the pointer is at the
  origin.

  Here \<open>w\<close> is a world in which the query fails with any exception \<open>e\<close> (the program does
  not start, exits non-zero, or prints text that does not parse), and \<open>w'\<close> one in which
  it reports the origin.
\<close>

theorem mouse_position_never_500:
  "req_path r = ''/mouse/position'' \<longrightarrow>
     status (fst (do_GET w r)) = 200 \<and>
     (\<exists>x y. fst (do_GET w r) = position_response (x, y)) \<and>
     (fst (query_location w) = Inl e \<longrightarrow>
        fst (get_mouse_position w) = (0, 0) \<and>
        fst (do_GET w r) = position_response (0, 0)) \<and>
     (fst (query_location w') = Inr (0, 0) \<longrightarrow>
        fst (do_GET w' r) = position_response (0, 0))"
  by (auto simp: do_GET_def get_mouse_position_def position_response_def
      send_json_def split: prod.splits sum.splits)

theorem mouse_position_never_500_witness:
  "fst (query_location (uniform_world 1)) = Inl (CalledProcessError 1) \<and>
   fst (query_location (printing_world ''x:0 y:0 screen:0 window:1'')) = Inr (0, 0) \<and>
   status (fst (do_GET (uniform_world 1) (get_request ''/mouse/position''))) = 200 \<and>
   fst (do_GET (uniform_world 1) (get_request ''/mouse/position'')) = position_response (0, 0) \<and>
   fst (do_GET (printing_world ''x:0 y:0 screen:0 window:1'') (get_request ''/mouse/position'')) =
     position_response (0, 0) \<and>
   body (position_response (0, 0)) =
     JsonBody (JObj [(''success'', JBool True), (''x'', JInt 0), (''y'', JInt 0)])"
proof -
  note t = mouse_position_never_500 [of "get_request ''/mouse/position''" "uniform_world 1"
      "CalledProcessError 1" "printing_world ''x:0 y:0 screen:0 window:1''",
      THEN mp, OF get_request_path]
  have 1: "status (fst (do_GET (uniform_world 1) (get_request ''/mouse/position''))) = 200"
    by (rule t [THEN conjunct1])
  have 2: "fst (do_GET (uniform_world 1) (get_request ''/mouse/position'')) =
      position_response (0, 0)"
    by (rule t [THEN conjunct2, THEN conjunct2, THEN conjunct1, THEN mp,
          OF query_location_broken, THEN conjunct2])
  have 3: "fst (do_GET (printing_world ''x:0 y:0 screen:0 window:1'')
        (get_request ''/mouse/position'')) = position_response (0, 0)"
    by (rule t [THEN conjunct2, THEN conjunct2, THEN conjunct2, THEN mp,
          OF query_location_origin])
  have 4: "body (position_response (0, 0)) =
     JsonBody (JObj [(''success'', JBool True), (''x'', JInt 0), (''y'', JInt 0)])"
    by (simp add: position_response_def send_json_def)
  from query_location_broken query_location_origin 1 2 3 4 show ?thesis
    by (intro conjI)
qed

section \<open>The status poll\<close>

lemma update_status_keeps_timer: "\<exists>t1. update_status t h = (Inr True, t1)"
  by (cases h) (auto simp: update_status_def)

text \<open>The timer is never removed: every tick is served.\<close>

lemma poll_loop_count: "snd (poll_loop t hs) = length hs"
proof (induction hs arbitrary: t)
  case Nil
  show ?case by simp
next
  case (Cons h hs)
  obtain t1 where u: "update_status t h = (Inr True, t1)"
    using update_status_keeps_timer by blast
  show ?case
    using Cons [of t1] by (cases "poll_loop t1 hs") (simp add: u)
qed

text \<open>The tray after a run of ticks and one more tick.\<close>

lemma poll_loop_snoc:
  "fst (poll_loop t (hs @ [h])) = snd (update_status (fst (poll_loop t hs)) h)"
proof (induction hs arbitrary: t)
  case Nil
  obtain t1 where u: "update_status t h = (Inr True, t1)"
    using update_status_keeps_timer by blast
  show ?case by (simp add: u)
next
  case (Cons a hs)
  obtain t1 where u: "update_status t a = (Inr True, t1)"
    using update_status_keeps_timer by blast
  show ?case
    using Cons [of t1]
    by (cases "poll_loop t1 hs"; cases "poll_loop t1 (hs @ [h])") (simp add: u)
qed

text \<open>
  The two failures leave the same \<open>connected\<close> flag but not the same label: the text queued
  for the status item is \<^verbatim>\<open>Status: Disconnected\<close> after a non-200 response and
  \<^verbatim>\<open>Status: Service not running\<close> after an exception.
\<close>

lemma poll_failure_labels:
  "idle_queue (snd (update_status sample_tray (Inr 503))) = [Set_label ''Status: Disconnected''] \<and>
   idle_queue (snd (update_status sample_tray (Inl ConnectionRefused))) =
     [Set_label ''Status: Service not running'']"
  by (simp add: update_status_def idle_add_def sample_tray_def)

text \<open>
  Claim C8: for every poll of the control service's health endpoint, a non-200 response
  and a connection failure (connection refused included) produce the identical
  disconnected status, the poll never throws out of the poll loop, and the status
  resolves within one polling interval.

  The status is the \<open>connected\<close> flag. One call of \<open>update_status\<close>, from any earlier
  state \<open>t\<close>, sets it to false for a response whose code is not 200 and for any request
  exception \<open>e\<close> alike; the call returns true to the timer instead of raising, and the
  timer serves every tick of any sequence \<open>hs\<close> of poll outcomes. So whatever the polls
  \<open>hs\<close> before gave, the status is disconnected right after the first tick that finds the
  endpoint failing.
\<close>

theorem poll_failure_is_disconnected:
  "code \<noteq> 200 \<longrightarrow>
     connected (snd (update_status t (Inr code))) = False \<and>
     connected (snd (update_status t (Inl e))) = False \<and>
     fst (update_status t (Inr code)) = Inr True \<and>
     fst (update_status t (Inl e)) = Inr True \<and>
     snd (poll_loop t hs) = length hs \<and>
     connected (fst (poll_loop t (hs @ [Inr code]))) = False \<and>
     connected (fst (poll_loop t (hs @ [Inl e]))) = False"
  by (simp add: poll_loop_count poll_loop_snoc) (simp add: update_status_def idle_add_def)

theorem poll_failure_is_disconnected_witness:
  "(503::int) \<noteq> 200 \<and>
   connected sample_tray = True \<and>
   connected (snd (update_status sample_tray (Inr 503))) = False \<and>
   connected (snd (update_status sample_tray (Inl ConnectionRefused))) = False \<and>
   fst (update_status sample_tray (Inl ConnectionRefused)) = Inr True \<and>
   snd (poll_loop sample_tray [Inr 200, Inr 200]) = 2 \<and>
   connected (fst (poll_loop sample_tray [Inr 200, Inr 200])) = True \<and>
   connected (fst (poll_loop sample_tray ([Inr 200, Inr 200] @ [Inl ConnectionRefused]))) = False"
proof -
  have c: "connected (fst (poll_loop sample_tray [Inr 200, Inr 200])) = True"
    by (simp add: update_status_def idle_add_def sample_tray_def)
  show ?thesis
    using poll_failure_is_disconnected [of 503 sample_tray ConnectionRefused "[Inr 200, Inr 200]"] c
    by (simp add: sample_tray_def)
qed

section \<open>Defaults of absent POST fields\<close>

lemma dict_get_absent: "map_of kvs k = None \<Longrightarrow> dict_get kvs k d = d"
  by (simp add: dict_get_def)

lemma dict_get_Cons:
  "dict_get ((k, v) # kvs) k' d = (if k' = k then v else dict_get kvs k' d)"
  by (simp add: dict_get_def)

text \<open>No Content-Length header, or one that says 0: the body is not read.\<close>

lemma read_json_empty:
  "content_length r = None \<or> content_length r = Some ''0'' \<Longrightarrow> read_json L r = Inr (JObj [])"
  by (auto simp: read_json_def int_of_str_def py_strip_def py_isspace_def int_literal_def
      digit_of_def)

lemma read_json_empty_object:
  "content_length r = Some ''2'' \<Longrightarrow> req_body r = ''{}'' \<Longrightarrow>
   json_loads L ''{}'' = Some (JObj []) \<Longrightarrow> read_json L r = Inr (JObj [])"
  by (simp add: read_json_def int_of_str_def py_strip_def py_isspace_def int_literal_def
      digit_of_def rfile_read_def)

lemma route_POST_click_empty:
  "route_POST L w ''/click'' (JObj []) =
     (success_response (fst (click w (JInt 0) (JInt 0) (JStr ''left''))),
      snd (click w (JInt 0) (JInt 0) (JStr ''left'')))"
  by (simp add: route_POST_def with_dict_def dict_get_def split: prod.splits)

lemma status_with_dict: "status (fst (with_dict (JObj kvs) w f)) = 200"
  by (simp add: with_dict_def success_response_def send_json_def split: prod.splits)

text \<open>A body that decodes to an object is never answered with 500.\<close>

lemma route_POST_dict_status: "status (fst (route_POST L w p (JObj kvs))) \<in> {200, 404}"
  by (simp add: route_POST_def status_with_dict not_found_def send_json_def)

lemma route_POST_coordinate_default:
  assumes "k \<in> {''x'', ''y'', ''startX'', ''startY'', ''endX'', ''endY''}"
    and "map_of kvs k = None"
  shows "route_POST L w p (JObj kvs) = route_POST L w p (JObj ((k, JInt 0) # kvs))"
  using assms
  apply (simp only: insert_iff empty_iff)
  apply (elim disjE FalseE)
       apply (simp_all add: route_POST_def with_dict_def dict_get_Cons dict_get_absent)
  done

lemma route_POST_amount_default:
  assumes "map_of kvs ''amount'' = None"
  shows "route_POST L w p (JObj kvs) = route_POST L w p (JObj ((''amount'', JInt 3) # kvs))"
  using assms
  by (simp add: route_POST_def with_dict_def dict_get_Cons dict_get_absent)

lemma scroll_default_issued:
  "issued (snd (do_POST sample_lib (uniform_world 0) (post_request ''/mouse/scroll'' None []))) =
     [[''xdotool'', ''click'', ''--repeat'', ''3'', ''5'']]"
  by code_simp

lemma scroll_zero_issued:
  "issued (snd (route_POST sample_lib (uniform_world 0) ''/mouse/scroll''
      (JObj [(''amount'', JInt 0)]))) = [[''xdotool'', ''click'', ''--repeat'', ''0'', ''5'']]"
  by code_simp

lemma click_default_post:
  "fst (do_POST sample_lib (uniform_world 0) (post_request ''/click'' (Some ''2'') ''{}'')) =
     success_response True \<and>
   issued (snd (do_POST sample_lib (uniform_world 0) (post_request ''/click'' (Some ''2'') ''{}''))) =
     [[''xdotool'', ''mousemove'', ''0'', ''0''], [''xdotool'', ''click'', ''1'']]"
  by code_simp

text \<open>
  Claim C7, as amended: a POST /click request whose body is empty or the empty JSON
  object is handled with the defaults x = 0, y = 0, button = left and produces a 200
  response with a success field, never an HTTP 500. More generally, no absent field of a
  JSON object body causes rejection: every absent coordinate field (x, y, startX,
  startY, endX, endY) defaults to 0, and the absent scroll amount defaults to 3.

  As stated, the claim has every absent numeric field default to 0, the scroll amount
  included. In the theorem a request with an absent field is answered exactly as the
  request whose decoded body has the default written out.
\<close>

theorem post_absent_fields_default:
  "((content_length r = None \<or> content_length r = Some ''0'' \<or>
     (content_length r = Some ''2'' \<and> req_body r = ''{}'' \<and>
      json_loads L ''{}'' = Some (JObj []))) \<and> req_path r = ''/click'' \<longrightarrow>
      do_POST L w r =
        (success_response (fst (click w (JInt 0) (JInt 0) (JStr ''left''))),
         snd (click w (JInt 0) (JInt 0) (JStr ''left''))) \<and>
      status (fst (do_POST L w r)) = 200) \<and>
   (read_json L r = Inr (JObj kvs) \<longrightarrow>
      status (fst (do_POST L w r)) \<in> {200, 404} \<and>
      (k \<in> {''x'', ''y'', ''startX'', ''startY'', ''endX'', ''endY''} \<and> map_of kvs k = None \<longrightarrow>
         do_POST L w r = route_POST L w (req_path r) (JObj ((k, JInt 0) # kvs))) \<and>
      (map_of kvs ''amount'' = None \<longrightarrow>
         do_POST L w r = route_POST L w (req_path r) (JObj ((''amount'', JInt 3) # kvs))))"
proof -
  have 1: "do_POST L w r =
        (success_response (fst (click w (JInt 0) (JInt 0) (JStr ''left''))),
         snd (click w (JInt 0) (JInt 0) (JStr ''left''))) \<and>
      status (fst (do_POST L w r)) = 200"
    if "content_length r = None \<or> content_length r = Some ''0'' \<or>
     (content_length r = Some ''2'' \<and> req_body r = ''{}'' \<and>
      json_loads L ''{}'' = Some (JObj []))" and p: "req_path r = ''/click''"
  proof -
    have "read_json L r = Inr (JObj [])"
      using that(1) read_json_empty [of r L] read_json_empty_object [of r L] by blast
    then show ?thesis
      by (simp add: do_POST_def p route_POST_click_empty success_response_def send_json_def)
  qed
  have 2: "status (fst (do_POST L w r)) \<in> {200, 404}" if "read_json L r = Inr (JObj kvs)"
    using route_POST_dict_status [of L w "req_path r" kvs] by (simp add: do_POST_def that)
  have 3: "do_POST L w r = route_POST L w (req_path r) (JObj ((k, JInt 0) # kvs))"
    if "read_json L r = Inr (JObj kvs)"
      "k \<in> {''x'', ''y'', ''startX'', ''startY'', ''endX'', ''endY''}" "map_of kvs k = None"
    using route_POST_coordinate_default [OF that(2,3), of L w "req_path r"]
    by (simp add: do_POST_def that(1))
  have 4: "do_POST L w r = route_POST L w (req_path r) (JObj ((''amount'', JInt 3) # kvs))"
    if "read_json L r = Inr (JObj kvs)" "map_of kvs ''amount'' = None"
    using route_POST_amount_default [OF that(2), of L w "req_path r"]
    by (simp add: do_POST_def that(1))
  from 1 2 3 4 show ?thesis by blast
qed

theorem post_absent_fields_default_witness:
  "status (fst (do_POST sample_lib (uniform_world 0) (post_request ''/click'' (Some ''2'') ''{}''))) = 200 \<and>
   fst (do_POST sample_lib (uniform_world 0) (post_request ''/click'' (Some ''2'') ''{}'')) =
     success_response True \<and>
   issued (snd (do_POST sample_lib (uniform_world 0) (post_request ''/click'' (Some ''2'') ''{}''))) =
     [[''xdotool'', ''mousemove'', ''0'', ''0''], [''xdotool'', ''click'', ''1'']] \<and>
   read_json sample_lib (post_request ''/mouse/drag'' None []) = Inr (JObj []) \<and>
   do_POST sample_lib (uniform_world 0) (post_request ''/mouse/drag'' None []) =
     route_POST sample_lib (uniform_world 0) ''/mouse/drag'' (JObj [(''endX'', JInt 0)]) \<and>
   do_POST sample_lib (uniform_world 0) (post_request ''/mouse/scroll'' None []) =
     route_POST sample_lib (uniform_world 0) ''/mouse/scroll'' (JObj [(''amount'', JInt 3)])"
proof -
  let ?c = "post_request ''/click'' (Some ''2'') ''{}''"
  let ?d = "post_request ''/mouse/drag'' None []"
  let ?s = "post_request ''/mouse/scroll'' None []"
  have r: "read_json sample_lib (post_request p None []) = Inr (JObj [])" for p
    by (simp add: read_json_def post_request_def)
  have h: "(content_length ?c = None \<or> content_length ?c = Some ''0'' \<or>
      (content_length ?c = Some ''2'' \<and> req_body ?c = ''{}'' \<and>
       json_loads sample_lib ''{}'' = Some (JObj []))) \<and> req_path ?c = ''/click''"
    by (simp add: post_request_def sample_lib_def)
  have 1: "status (fst (do_POST sample_lib (uniform_world 0) ?c)) = 200"
    by (rule post_absent_fields_default [of ?c sample_lib "uniform_world 0" "[]" "''x''",
          THEN conjunct1, THEN mp, OF h, THEN conjunct2])
  have k: "''endX'' \<in> {''x'', ''y'', ''startX'', ''startY'', ''endX'', ''endY''} \<and>
      map_of ([] :: (string \<times> json) list) ''endX'' = None"
    by simp
  have 2: "do_POST sample_lib (uniform_world 0) ?d =
     route_POST sample_lib (uniform_world 0) (req_path ?d) (JObj [(''endX'', JInt 0)])"
    by (rule post_absent_fields_default [of ?d sample_lib "uniform_world 0" "[]" "''endX''",
          THEN conjunct2, THEN mp, OF r, THEN conjunct2, THEN conjunct1, THEN mp, OF k])
  have m: "map_of ([] :: (string \<times> json) list) ''amount'' = None"
    by simp
  have 3: "do_POST sample_lib (uniform_world 0) ?s =
     route_POST sample_lib (uniform_world 0) (req_path ?s) (JObj [(''amount'', JInt 3)])"
    by (rule post_absent_fields_default [of ?s sample_lib "uniform_world 0" "[]" "''x''",
          THEN conjunct2, THEN mp, OF r, THEN conjunct2, THEN conjunct2, THEN mp, OF m])
  have p: "req_path (post_request p l b) = p" for p l b
    by (simp add: post_request_def)
  show ?thesis
    using 1 2 [unfolded p] 3 [unfolded p] r [of "''/mouse/drag''"] click_default_post
    by (intro conjI) (erule conjunct1 conjunct2 | assumption)+
qed

theorem absent_amount_counterexample:
  "read_json sample_lib (post_request ''/mouse/scroll'' None []) = Inr (JObj []) \<and>
   issued (snd (do_POST sample_lib (uniform_world 0) (post_request ''/mouse/scroll'' None []))) =
     [[''xdotool'', ''click'', ''--repeat'', ''3'', ''5'']] \<and>
   issued (snd (route_POST sample_lib (uniform_world 0) ''/mouse/scroll''
      (JObj [(''amount'', JInt 0)]))) = [[''xdotool'', ''click'', ''--repeat'', ''0'', ''5'']]"
  using scroll_default_issued scroll_zero_issued
  by (simp add: read_json_def post_request_def)

end
